theory Spec2Isabelle
  imports Complex_Main
begin

section \<open>Python numbers\<close>

text \<open>
  The bridge is Python 2 code (\<^verbatim>\<open>urlparse\<close>, \<^verbatim>\<open>xrange\<close>). Its integers are unbounded
  (\<open>int\<close>, \<open>nat\<close> for sizes), its floats are IEEE 754 doubles. A float is modelled by the
  real number it holds, and every float operation by the exact operation followed by
  \<open>fl\<close>, the rounding of a real to the nearest double (ties to even, 53 significant bits).
  Overflow, infinities and NaN are outside the model: \<open>fl\<close> has no largest exponent. It
  has no smallest exponent either; the product in the bound of the queues controller,
  which can fall below the smallest normal double \<open>1 / 2 ^ 1022\<close> and then decides a
  comparison with 0, is rounded with \<open>fl_gradual\<close> instead.
\<close>

datatype error =
    DataBridgeConfigError string
  | KeyError string
  | AttributeError string
  | TypeError string
  | ValueError string
  | ZeroDivisionError

definition bindE :: "error + 'a \<Rightarrow> ('a \<Rightarrow> error + 'b) \<Rightarrow> error + 'b" where
  "bindE m f = (case m of Inl e \<Rightarrow> Inl e | Inr a \<Rightarrow> f a)"

definition rne :: "real \<Rightarrow> int" where
  "rne y = (let f = \<lfloor>y\<rfloor>; r = y - of_int f in
     if r < 1/2 then f else if 1/2 < r then f + 1 else if even f then f else f + 1)"

definition fl :: "real \<Rightarrow> real" where
  "fl x = (if x = 0 then 0 else
     (let e = \<lfloor>log 2 \<bar>x\<bar>\<rfloor>; u = 2 powr of_int (e - 52) in
        sgn x * of_int (rne (\<bar>x\<bar> / u)) * u))"

text \<open>
  Gradual underflow: below \<open>1 / 2 ^ 1022\<close> the doubles are the multiples of
  \<open>1 / 2 ^ 1074\<close>, and a real nearer to 0 than to any other of them is rounded to a zero.
  The two zeros of the machine are the one real 0: Python compares \<^verbatim>\<open>-0.0\<close> equal to 0.
\<close>

definition fl_gradual :: "real \<Rightarrow> real" where
  "fl_gradual x =
     (if \<bar>x\<bar> < 1 / 2 ^ 1022 then of_int (rne (x * 2 ^ 1074)) / 2 ^ 1074 else fl x)"

definition float_add :: "real \<Rightarrow> real \<Rightarrow> real" where
  "float_add a b = fl (a + b)"

definition float_sub :: "real \<Rightarrow> real \<Rightarrow> real" where
  "float_sub a b = fl (a - b)"

definition float_mul :: "real \<Rightarrow> real \<Rightarrow> real" where
  "float_mul a b = fl (a * b)"

definition float_truediv :: "real \<Rightarrow> real \<Rightarrow> error + real" where
  "float_truediv a b = (if b = 0 then Inl ZeroDivisionError else Inr (fl (a / b)))"

text \<open>\<^verbatim>\<open>x ** 2\<close> on a float is C's \<^verbatim>\<open>pow(x, 2.0)\<close>, taken as correctly rounded.\<close>

definition float_pow2 :: "real \<Rightarrow> real" where
  "float_pow2 a = fl (a * a)"

definition math_sqrt :: "real \<Rightarrow> error + real" where
  "math_sqrt a = (if a < 0 then Inl (ValueError ''math domain error'') else Inr (fl (sqrt a)))"

text \<open>
  \<^verbatim>\<open>round(x, n)\<close> of CPython 2.7: the exact value of the double is rounded to \<open>n\<close> decimals,
  halves away from zero, and the result is the double nearest to that decimal.
\<close>

definition py_round :: "nat \<Rightarrow> real \<Rightarrow> real" where
  "py_round n x = fl (sgn x * of_int \<lfloor>\<bar>x\<bar> * 10 ^ n + 1/2\<rfloor> / 10 ^ n)"

text \<open>\<^verbatim>\<open>sum(xs)\<close> adds from the left, starting at the integer 0.\<close>

definition py_sum :: "real list \<Rightarrow> real" where
  "py_sum xs = foldl float_add 0 xs"

fun py_min :: "'a::linorder list \<Rightarrow> error + 'a" where
  "py_min [] = Inl (ValueError ''min() arg is an empty sequence'')"
| "py_min (x # xs) = Inr (fold min xs x)"

fun py_max :: "'a::linorder list \<Rightarrow> error + 'a" where
  "py_max [] = Inl (ValueError ''max() arg is an empty sequence'')"
| "py_max (x # xs) = Inr (fold max xs x)"

section \<open>Dictionaries\<close>

text \<open>
  A dict is an association list with distinct keys, in iteration order; \<^verbatim>\<open>d[k] = v\<close>
  replaces the value of an existing key and appends a new one, \<^verbatim>\<open>del d[k]\<close> raises
  \<^verbatim>\<open>KeyError\<close> on a missing key.
\<close>

fun dict_set :: "'k \<Rightarrow> 'v \<Rightarrow> ('k \<times> 'v) list \<Rightarrow> ('k \<times> 'v) list" where
  "dict_set k v [] = [(k, v)]"
| "dict_set k v ((k', v') # d) = (if k' = k then (k, v) # d else (k', v') # dict_set k v d)"

definition dict_del :: "string \<Rightarrow> (string \<times> 'v) list \<Rightarrow> error + (string \<times> 'v) list" where
  "dict_del k d = (if k \<in> set (map fst d) then Inr (filter (\<lambda>kv. fst kv \<noteq> k) d) else Inl (KeyError k))"

section \<open>Client health and the performance watcher\<close>

text \<open>
  A \<^verbatim>\<open>datetime\<close> is a number of microseconds, a \<^verbatim>\<open>timedelta(seconds=n)\<close> of whole seconds
  is \<open>1000000 * n\<close>; their arithmetic is exact. The key \<^verbatim>\<open>'grown'\<close> is absent from a new
  health entry (\<open>None\<close>) and read with \<^verbatim>\<open>info.get('grown', False)\<close>.
\<close>

type_synonym cid = string
type_synonym datetime = int

record client_info =
  drop_cookies :: bool
  request_durations :: "(datetime \<times> real) list"
  request_interval :: real
  avg_duration :: real
  grown :: "bool option"

definition get_grown :: "client_info \<Rightarrow> bool" where
  "get_grown info = (case grown info of None \<Rightarrow> False | Some g \<Rightarrow> g)"

text \<open>The configuration attributes that the modelled methods read.\<close>

record settings =
  workers_min :: int
  workers_max :: int
  resource_items_queue_size :: int
  retry_resource_items_queue_size :: int
  workers_inc_threshold :: real
  workers_dec_threshold :: real
  perfomance_window :: int
  watch_interval :: int

text \<open>One iteration of the loop of \<^verbatim>\<open>_get_average_requests_duration\<close> (lines 181 to 187).\<close>

definition client_average :: "datetime \<Rightarrow> client_info \<Rightarrow> error + (real option \<times> client_info)" where
  "client_average current_date info =
     (let ds = request_durations info in
      if length ds > 0 then
        bindE (py_min (map fst ds)) (\<lambda>oldest.
          let info1 = (if oldest \<le> current_date then info\<lparr>grown := Some True\<rparr> else info) in
          bindE (float_truediv (float_mul (py_sum (map snd ds)) 1) (of_nat (length ds))) (\<lambda>q.
            let avg = py_round 3 q in
            Inr (Some avg, info1\<lparr>avg_duration := avg\<rparr>)))
      else Inr (None, info))"

fun average_loop ::
  "datetime \<Rightarrow> (cid \<times> client_info) list \<Rightarrow> error + (real list \<times> (cid \<times> client_info) list)" where
  "average_loop current_date [] = Inr ([], [])"
| "average_loop current_date ((c, info) # rest) =
     bindE (client_average current_date info) (\<lambda>(v, info').
       bindE (average_loop current_date rest) (\<lambda>(req_durations, rest').
         Inr ((case v of None \<Rightarrow> req_durations | Some avg \<Rightarrow> avg # req_durations),
              (c, info') # rest')))"

definition get_average_requests_duration ::
  "settings \<Rightarrow> datetime \<Rightarrow> (cid \<times> client_info) list
     \<Rightarrow> error + (real \<times> real list \<times> (cid \<times> client_info) list)" where
  "get_average_requests_duration cfg now infos =
     bindE (average_loop (now - 1000000 * perfomance_window cfg) infos) (\<lambda>(req_durations, infos').
       if length req_durations > 0 then
         bindE (float_truediv (py_sum req_durations) (of_nat (length req_durations))) (\<lambda>q.
           Inr (py_round 3 q, req_durations, infos'))
       else Inr (0, req_durations, infos'))"

definition calculate_st_dev :: "real list \<Rightarrow> error + real" where
  "calculate_st_dev values =
     (if length values > 0 then
        bindE (float_truediv (float_mul (py_sum values) 1) (of_nat (length values))) (\<lambda>avg.
          let variance = map (\<lambda>x. float_pow2 (float_sub x avg)) values in
          bindE (float_truediv (float_mul (py_sum variance) 1) (of_nat (length variance))) (\<lambda>avg_variance.
            bindE (math_sqrt avg_variance) (\<lambda>st_dev.
              Inr (py_round 3 st_dev))))
      else Inr 0)"

definition mark_client :: "real \<Rightarrow> client_info \<Rightarrow> client_info" where
  "mark_client dev info =
     (if get_grown info \<and> avg_duration info > dev then info\<lparr>drop_cookies := True\<rparr>
      else if avg_duration info < dev \<and> request_interval info > 0 then info\<lparr>drop_cookies := True\<rparr>
      else info)"

definition mark_bad_clients :: "real \<Rightarrow> (cid \<times> client_info) list \<Rightarrow> (cid \<times> client_info) list" where
  "mark_bad_clients dev infos = map (\<lambda>(c, info). (c, mark_client dev info)) infos"

text \<open>Lines 314 to 322: the entries of one client older than \<open>current_date\<close> are deleted.\<close>

definition prune_durations :: "datetime \<Rightarrow> client_info \<Rightarrow> client_info" where
  "prune_durations current_date info =
     info\<lparr>request_durations := filter (\<lambda>(key, d). \<not> key < current_date) (request_durations info)\<rparr>"

text \<open>
  What one tick logs: the five numbers of the message and the four gauges of \<^verbatim>\<open>extra\<close>.
\<close>

record perfomance_report =
  msg_stdev :: real
  msg_dev :: real
  msg_min_avg :: real
  msg_max_avg :: real
  msg_avg :: real
  REQUESTS_DEV :: real
  REQUESTS_MIN_AVG :: real
  REQUESTS_MAX_AVG :: real
  REQUESTS_AVG :: real

text \<open>
  \<^verbatim>\<open>perfomance_watcher\<close>. \<open>now\<close> is the clock reading inside
  \<^verbatim>\<open>_get_average_requests_duration\<close>, \<open>now_prune c\<close> the reading of the loop iteration
  that prunes client \<open>c\<close>.
\<close>

definition perfomance_watcher ::
  "settings \<Rightarrow> datetime \<Rightarrow> (cid \<Rightarrow> datetime) \<Rightarrow> (cid \<times> client_info) list
     \<Rightarrow> error + (perfomance_report \<times> (cid \<times> client_info) list)" where
  "perfomance_watcher cfg now now_prune infos =
     bindE (get_average_requests_duration cfg now infos) (\<lambda>(avg_dur, values, infos1).
       let infos2 = map (\<lambda>(c, info).
             (c, prune_durations
                   (now_prune c - 1000000 * (perfomance_window cfg + watch_interval cfg)) info)) infos1 in
       bindE (calculate_st_dev values) (\<lambda>st_dev.
         bindE (if length values > 0
                then bindE (py_min values) (\<lambda>lo. bindE (py_max values) (\<lambda>hi.
                       Inr (float_mul lo 1000, float_mul hi 1000)))
                else Inr (0, 0)) (\<lambda>(min_avg, max_avg).
           let dev = py_round 3 (float_add st_dev avg_dur) in
           Inr (\<lparr>msg_stdev = py_round 3 st_dev, msg_dev = dev, msg_min_avg = min_avg,
                  msg_max_avg = max_avg, msg_avg = avg_dur,
                  REQUESTS_DEV = float_mul dev 1000, REQUESTS_MIN_AVG = min_avg,
                  REQUESTS_MAX_AVG = max_avg, REQUESTS_AVG = float_mul avg_dur 1000\<rparr>,
                mark_bad_clients dev infos2))))"

subsection \<open>The tick in closed form\<close>

text \<open>
  The error branches of the watcher are never taken; these definitions give its results
  without them, and the lemmas below prove them equal to the translation above.
\<close>

definition mean3 :: "real list \<Rightarrow> real" where
  "mean3 xs = py_round 3 (fl (float_mul (py_sum xs) 1 / of_nat (length xs)))"

definition averaged :: "datetime \<Rightarrow> client_info \<Rightarrow> client_info" where
  "averaged current_date info =
     (let ds = request_durations info in
      if ds = [] then info
      else (if fold min (map fst (tl ds)) (fst (hd ds)) \<le> current_date
            then info\<lparr>grown := Some True\<rparr> else info)\<lparr>avg_duration := mean3 (map snd ds)\<rparr>)"

definition sampled_means :: "(cid \<times> client_info) list \<Rightarrow> real list" where
  "sampled_means infos =
     map (\<lambda>(c, info). mean3 (map snd (request_durations info)))
       (filter (\<lambda>(c, info). request_durations info \<noteq> []) infos)"

definition overall_mean3 :: "real list \<Rightarrow> real" where
  "overall_mean3 xs = (if xs = [] then 0 else py_round 3 (fl (py_sum xs / of_nat (length xs))))"

definition std3 :: "real list \<Rightarrow> real" where
  "std3 xs =
     (if xs = [] then 0
      else let avg = fl (float_mul (py_sum xs) 1 / of_nat (length xs));
               variance = map (\<lambda>x. float_pow2 (float_sub x avg)) xs
           in py_round 3 (fl (sqrt (fl (float_mul (py_sum variance) 1 / of_nat (length variance))))))"

definition tick_dev :: "(cid \<times> client_info) list \<Rightarrow> real" where
  "tick_dev infos =
     py_round 3 (float_add (std3 (sampled_means infos)) (overall_mean3 (sampled_means infos)))"

definition tick_entry :: "settings \<Rightarrow> datetime \<Rightarrow> datetime \<Rightarrow> real \<Rightarrow> client_info \<Rightarrow> client_info" where
  "tick_entry cfg now now_c dev info =
     mark_client dev
       (prune_durations (now_c - 1000000 * (perfomance_window cfg + watch_interval cfg))
         (averaged (now - 1000000 * perfomance_window cfg) info))"

section \<open>Construction of the bridge\<close>

text \<open>
  \<^verbatim>\<open>BasicDataBridge.__init__\<close>, from its first line to the check of
  \<^verbatim>\<open>resources_api_server\<close>; what follows it in the constructor loads the plugins and
  builds the feeder and is not part of this development.

  A configuration value is a value of YAML: \<^verbatim>\<open>None\<close>, a boolean, an integer, a
  float, a string, a list or a dict.
\<close>

datatype pyval =
    PNone
  | PBool bool
  | PInt int
  | PFloat real
  | PStr string
  | PList "pyval list"
  | PDict "(string \<times> pyval) list"

text \<open>
  What the constructor calls outside this file is a parameter: the assignment of an
  attribute of the new object, \<^verbatim>\<open>urlparse\<close> (of which only the scheme and the netloc are
  read), \<^verbatim>\<open>gevent.pool.Pool\<close> and \<^verbatim>\<open>PriorityQueue\<close> (without an argument, or with
  the maximal size). Each of them returns or raises.
\<close>

record externals =
  object_setattr :: "string \<Rightarrow> pyval \<Rightarrow> error option"
  urlparse :: "pyval \<Rightarrow> error + string \<times> string"
  Pool :: "pyval \<Rightarrow> error option"
  PriorityQueue :: "pyval option \<Rightarrow> error option"

definition raising :: "error option \<Rightarrow> error + unit" where
  "raising r = (case r of None \<Rightarrow> Inr () | Some e \<Rightarrow> Inl e)"

text \<open>
  \<^verbatim>\<open>c[k]\<close> raises \<^verbatim>\<open>KeyError\<close> on a dict without the key and \<^verbatim>\<open>TypeError\<close> on a value
  that is no dict; \<^verbatim>\<open>c.get(k, dflt)\<close> raises \<^verbatim>\<open>AttributeError\<close> on a value that is no dict.
\<close>

fun py_getitem :: "pyval \<Rightarrow> string \<Rightarrow> error + pyval" where
  "py_getitem (PDict d) k = (case map_of d k of None \<Rightarrow> Inl (KeyError k) | Some v \<Rightarrow> Inr v)"
| "py_getitem _ k = Inl (TypeError ''__getitem__'')"

fun py_get :: "pyval \<Rightarrow> string \<Rightarrow> pyval \<Rightarrow> error + pyval" where
  "py_get (PDict d) k dflt = Inr (case map_of d k of None \<Rightarrow> dflt | Some v \<Rightarrow> v)"
| "py_get _ k dflt = Inl (AttributeError ''get'')"

text \<open>
  \<^verbatim>\<open>v < 30\<close> and \<^verbatim>\<open>v == -1\<close> in Python 2: \<^verbatim>\<open>None\<close> is below every value, a boolean
  counts as 0 or 1, and a string, a list or a dict is above every number.
\<close>

fun lt_30 :: "pyval \<Rightarrow> bool" where
  "lt_30 PNone = True"
| "lt_30 (PBool b) = True"
| "lt_30 (PInt i) = (i < 30)"
| "lt_30 (PFloat x) = (x < 30)"
| "lt_30 (PStr s) = False"
| "lt_30 (PList xs) = False"
| "lt_30 (PDict d) = False"

fun eq_minus_1 :: "pyval \<Rightarrow> bool" where
  "eq_minus_1 (PInt i) = (i = - 1)"
| "eq_minus_1 (PFloat x) = (x = - 1)"
| "eq_minus_1 _ = False"

text \<open>
  The loop \<^verbatim>\<open>for key, value in defaults.items(): setattr(self, key, value)\<close>, and the
  later read of such an attribute, which raises \<^verbatim>\<open>AttributeError\<close> when no key of that
  name was set (the constructor assigns none of the six names it reads this way, and the
  class has no member of these names).
\<close>

fun setattrs :: "externals \<Rightarrow> (string \<times> pyval) list \<Rightarrow> error + unit" where
  "setattrs ext [] = Inr ()"
| "setattrs ext ((k, v) # kvs) = bindE (raising (object_setattr ext k v)) (\<lambda>_. setattrs ext kvs)"

definition getattr :: "(string \<times> pyval) list \<Rightarrow> string \<Rightarrow> error + pyval" where
  "getattr defaults k = (case map_of defaults k of None \<Rightarrow> Inl (AttributeError k) | Some v \<Rightarrow> Inr v)"

text \<open>
  The values the constructor derives from the configuration.
\<close>

record bridge_config =
  api_host :: pyval
  api_version :: pyval
  retrievers_params :: pyval
  storage_type :: pyval
  worker_type :: pyval
  filter_type :: pyval

text \<open>
  Lines 43 to 55. The argument \<^verbatim>\<open>config_main\<close> is \<^verbatim>\<open>config['main']\<close>, or \<^verbatim>\<open>None\<close>
  when \<^verbatim>\<open>config\<close> has no such key; \<^verbatim>\<open>DEFAULTS\<close> is the dict of that name of
  \<^verbatim>\<open>constants.py\<close>, a parameter here. \<^verbatim>\<open>defaults.update(config['main'])\<close> sets the keys
  of the main section one by one. \<^verbatim>\<open>self.config\<close> is this dict, unless the dict has a key
  \<^verbatim>\<open>config\<close> itself, whose value the loop then assigns to \<^verbatim>\<open>self.config\<close>.
\<close>

definition read_config ::
  "externals \<Rightarrow> (string \<times> pyval) list \<Rightarrow> (string \<times> pyval) list option
    \<Rightarrow> error + (string \<times> pyval) list \<times> bridge_config" where
  "read_config ext DEFAULTS config_main =
     bindE (case config_main of None \<Rightarrow> Inl (KeyError ''main'') | Some m \<Rightarrow> Inr m) (\<lambda>m.
     let defaults = fold (\<lambda>(k, v). dict_set k v) m DEFAULTS in
     bindE (setattrs ext defaults) (\<lambda>_.
     let config = (case map_of defaults ''config'' of None \<Rightarrow> PDict defaults | Some v \<Rightarrow> v) in
     bindE (py_get config ''resources_api_server'' PNone) (\<lambda>host.
     bindE (py_get config ''resources_api_version'' PNone) (\<lambda>version.
     bindE (py_get config ''retrievers_params'' PNone) (\<lambda>params.
     bindE (bindE (py_getitem config ''storage_config'')
              (\<lambda>c. py_get c ''storage_type'' (PStr ''couchdb''))) (\<lambda>st.
     bindE (bindE (py_getitem config ''worker_config'')
              (\<lambda>c. py_get c ''worker_type'' (PStr ''basic_couchdb''))) (\<lambda>wt.
     bindE (bindE (py_getitem config ''filter_config'')
              (\<lambda>c. py_get c ''filter_type'' (PStr ''basic_couchdb''))) (\<lambda>ft.
     Inr (defaults,
          \<lparr>api_host = host, api_version = version, retrievers_params = params,
           storage_type = st, worker_type = wt, filter_type = ft\<rparr>)))))))))"

text \<open>
  The three messages of \<^verbatim>\<open>DataBridgeConfigError\<close>.
\<close>

definition up_wait_sleep_message :: string where
  "up_wait_sleep_message =
     ''Invalid 'up_wait_sleep' in 'retrievers_params'. Value must be grater than 30.''"

definition invalid_url_message :: string where
  "invalid_url_message = ''Invalid 'resources_api_server' url.''"

definition missing_url_message :: string where
  "missing_url_message =
     ''In config dictionary empty or missing 'resources_api_server'' @ [CHR 0x27]"

text \<open>
  Lines 57 to 61, 63 to 85 and 87 to 92.
\<close>

definition check_up_wait_sleep :: "pyval \<Rightarrow> error + unit" where
  "check_up_wait_sleep params =
     bindE (py_get params ''up_wait_sleep'' PNone) (\<lambda>up_wait_sleep.
     if up_wait_sleep \<noteq> PNone \<and> lt_30 up_wait_sleep
     then Inl (DataBridgeConfigError up_wait_sleep_message)
     else Inr ())"

definition make_pool :: "externals \<Rightarrow> (string \<times> pyval) list \<Rightarrow> string \<Rightarrow> error + unit" where
  "make_pool ext defaults k = bindE (getattr defaults k) (\<lambda>n. raising (Pool ext n))"

definition make_queue :: "externals \<Rightarrow> (string \<times> pyval) list \<Rightarrow> string \<Rightarrow> error + unit" where
  "make_queue ext defaults k =
     bindE (getattr defaults k) (\<lambda>n.
     if eq_minus_1 n then raising (PriorityQueue ext None)
     else bindE (getattr defaults k) (\<lambda>n'. raising (PriorityQueue ext (Some n'))))"

definition make_pools_and_queues :: "externals \<Rightarrow> (string \<times> pyval) list \<Rightarrow> error + unit" where
  "make_pools_and_queues ext defaults =
     bindE (make_pool ext defaults ''workers_max'') (\<lambda>_.
     bindE (make_pool ext defaults ''retry_workers_max'') (\<lambda>_.
     bindE (make_pool ext defaults ''filter_workers_count'') (\<lambda>_.
     bindE (make_queue ext defaults ''input_queue_size'') (\<lambda>_.
     bindE (make_queue ext defaults ''resource_items_queue_size'') (\<lambda>_.
     make_queue ext defaults ''retry_resource_items_queue_size'')))))"

definition check_api_host :: "externals \<Rightarrow> pyval \<Rightarrow> error + unit" where
  "check_api_host ext host =
     (if host \<noteq> PStr [] \<and> host \<noteq> PNone
      then bindE (urlparse ext host) (\<lambda>(scheme, netloc).
           if scheme = [] \<and> netloc = []
           then Inl (DataBridgeConfigError invalid_url_message)
           else Inr ())
      else Inl (DataBridgeConfigError missing_url_message))"

definition init ::
  "externals \<Rightarrow> (string \<times> pyval) list \<Rightarrow> (string \<times> pyval) list option \<Rightarrow> error + bridge_config" where
  "init ext DEFAULTS config_main =
     bindE (read_config ext DEFAULTS config_main) (\<lambda>(defaults, self).
     bindE (check_up_wait_sleep (retrievers_params self)) (\<lambda>_.
     bindE (make_pools_and_queues ext defaults) (\<lambda>_.
     bindE (check_api_host ext (api_host self)) (\<lambda>_.
     Inr self))))"

text \<open>
  \<^verbatim>\<open>DataBridgeConfigError\<close> is an exception of this package: no library that the constructor
  calls raises it.
\<close>

definition foreign :: "externals \<Rightarrow> bool" where
  "foreign ext \<longleftrightarrow>
     (\<forall>k v m. object_setattr ext k v \<noteq> Some (DataBridgeConfigError m)) \<and>
     (\<forall>v m. urlparse ext v \<noteq> Inl (DataBridgeConfigError m)) \<and>
     (\<forall>v m. Pool ext v \<noteq> Some (DataBridgeConfigError m)) \<and>
     (\<forall>v m. PriorityQueue ext v \<noteq> Some (DataBridgeConfigError m))"

text \<open>
  Values of the parameters for the examples: externals that never fail, with the scheme
  and the netloc that \<^verbatim>\<open>urlparse\<close> returns on three addresses, and a dict of defaults with
  which the constructor reaches the check of the address.
\<close>

definition sample_urlparse :: "pyval \<Rightarrow> error + string \<times> string" where
  "sample_urlparse v =
     (case v of
        PStr s \<Rightarrow>
          if s = ''http://localhost:20602'' then Inr (''http'', ''localhost:20602'')
          else if s = ''http:localhost'' then Inr (''http'', [])
          else if s = ''localhost'' then Inr ([], [])
          else Inl (ValueError s)
      | _ \<Rightarrow> Inl (AttributeError ''find''))"

definition sample_externals :: externals where
  "sample_externals =
     \<lparr>object_setattr = (\<lambda>k v. None), urlparse = sample_urlparse,
      Pool = (\<lambda>n. None), PriorityQueue = (\<lambda>n. None)\<rparr>"

definition sample_defaults :: "(string \<times> pyval) list" where
  "sample_defaults =
     [(''resources_api_server'', PStr []),
      (''resources_api_version'', PStr ''0''),
      (''retrievers_params'', PDict [(''up_wait_sleep'', PInt 30)]),
      (''storage_config'', PDict []),
      (''worker_config'', PDict []),
      (''filter_config'', PDict []),
      (''workers_max'', PInt 3),
      (''retry_workers_max'', PInt 2),
      (''filter_workers_count'', PInt 1),
      (''input_queue_size'', PInt (- 1)),
      (''resource_items_queue_size'', PInt 100),
      (''retry_resource_items_queue_size'', PInt (- 1))]"

section \<open>The client pool and the queues controller\<close>

text \<open>
  The upstream API and the random identifiers are the outside world: \<open>APIClient w n\<close> is
  the outcome of the \<open>n\<close>-th call of the client constructor, \<open>uuid4_hex w n\<close> the \<open>n\<close>-th
  identifier drawn for a client. The bridge counts its calls of both.
\<close>

datatype attempt = Started | RequestFailed int | OtherException string

record world =
  APIClient :: "nat \<Rightarrow> attempt"
  uuid4_hex :: "nat \<Rightarrow> cid"

text \<open>
  The dict put on \<^verbatim>\<open>api_clients_queue\<close>, keys \<^verbatim>\<open>id\<close>, \<^verbatim>\<open>client\<close>, \<^verbatim>\<open>request_interval\<close> and
  \<^verbatim>\<open>not_actual_count\<close>; the client is named by the constructor call that made it.
\<close>

record api_client_dict =
  acd_id :: cid
  acd_client :: nat
  acd_request_interval :: real
  acd_not_actual_count :: int

datatype log_entry =
    Started_api_client
  | Failed_start_status int
  | Failed_start_error string
  | Will_sleep real
  | Create_main_worker
  | Kill_main_worker
  | Queue_filled real
  | Retry_queue_filled real

text \<open>
  The part of the bridge that the modelled methods change: the FIFO queue of clients, the
  health map, the greenlets of the main pool (named by their spawn number), what was
  logged and how long the bridge slept.
\<close>

record bridge =
  api_clients_queue :: "api_client_dict list"
  api_clients_info :: "(cid \<times> client_info) list"
  workers_pool :: "nat list"
  api_calls :: nat
  uuid_calls :: nat
  spawned :: nat
  logged :: "log_entry list"
  slept :: "real list"

definition new_bridge :: bridge where
  "new_bridge = \<lparr>api_clients_queue = [], api_clients_info = [], workers_pool = [],
                  api_calls = 0, uuid_calls = 0, spawned = 0, logged = [], slept = []\<rparr>"

text \<open>Lines 130 to 147: the constructor has returned.\<close>

definition register_client :: "world \<Rightarrow> bridge \<Rightarrow> bridge" where
  "register_client w b =
     (let client_id = uuid4_hex w (uuid_calls b);
          api_client_dict = \<lparr>acd_id = client_id, acd_client = api_calls b,
                              acd_request_interval = 0, acd_not_actual_count = 0\<rparr>
      in b\<lparr>api_calls := Suc (api_calls b),
            uuid_calls := Suc (uuid_calls b),
            logged := logged b @ [Started_api_client],
            api_clients_info :=
              dict_set client_id
                \<lparr>drop_cookies = False, request_durations = [], request_interval = 0,
                 avg_duration = 0, grown = None\<rparr> (api_clients_info b),
            api_clients_queue := api_clients_queue b @ [api_client_dict]\<rparr>)"

text \<open>Lines 148 to 159: an \<^verbatim>\<open>except\<close> clause logs, doubles the timeout and sleeps.\<close>

definition retry_after :: "log_entry \<Rightarrow> real \<Rightarrow> bridge \<Rightarrow> bridge" where
  "retry_after entry timeout b =
     b\<lparr>api_calls := Suc (api_calls b),
       logged := logged b @ [entry, Will_sleep timeout],
       slept := slept b @ [timeout]\<rparr>"

partial_function (option) create_api_client_loop :: "world \<Rightarrow> real \<Rightarrow> bridge \<Rightarrow> bridge option" where
  "create_api_client_loop w timeout b =
     (case APIClient w (api_calls b) of
        Started \<Rightarrow> Some (register_client w b)
      | RequestFailed status_code \<Rightarrow>
          create_api_client_loop w (float_mul timeout 2)
            (retry_after (Failed_start_status status_code) (float_mul timeout 2) b)
      | OtherException message \<Rightarrow>
          create_api_client_loop w (float_mul timeout 2)
            (retry_after (Failed_start_error message) (float_mul timeout 2) b))"

text \<open>\<open>None\<close>: the loop never ends. The literal \<^verbatim>\<open>0.1\<close> is the double nearest to 1/10.\<close>

definition create_api_client :: "world \<Rightarrow> bridge \<Rightarrow> bridge option" where
  "create_api_client w b = create_api_client_loop w (fl (1 / 10)) b"

definition failure_entry :: "attempt \<Rightarrow> log_entry" where
  "failure_entry a =
     (case a of RequestFailed status_code \<Rightarrow> Failed_start_status status_code
      | OtherException message \<Rightarrow> Failed_start_error message
      | Started \<Rightarrow> Started_api_client)"

text \<open>
  \<^verbatim>\<open>free_count()\<close> of the gevent pool of size \<^verbatim>\<open>workers_max\<close>, and the bound
  \<^verbatim>\<open>(float(size) / 100) * threshold\<close> of lines 201 and 212, in double precision. The
  configured threshold is a Python number, converted to a double where it is an integer;
  the product may underflow. A queue size is an integer; Python compares it with the float
  bound exactly.
\<close>

definition free_count :: "settings \<Rightarrow> bridge \<Rightarrow> int" where
  "free_count cfg b = max 0 (workers_max cfg - int (length (workers_pool b)))"

definition threshold :: "int \<Rightarrow> real \<Rightarrow> real" where
  "threshold queue_size percent = fl_gradual (fl (fl (of_int queue_size) / 100) * fl percent)"

definition spawn_worker :: "bridge \<Rightarrow> bridge" where
  "spawn_worker b =
     b\<lparr>workers_pool := workers_pool b @ [spawned b], spawned := Suc (spawned b),
       logged := logged b @ [Create_main_worker]\<rparr>"

text \<open>
  Lines 215 to 219. \<^verbatim>\<open>greenlets.pop()\<close> takes some greenlet of the set (here the first) and
  raises on an empty set; \<^verbatim>\<open>api_clients_queue.get()\<close> waits while the queue is empty
  (\<open>None\<close>: within the model it waits forever).
\<close>

definition retire :: "bridge \<Rightarrow> (error + bridge) option" where
  "retire b =
     (case workers_pool b of
        [] \<Rightarrow> Some (Inl (KeyError ''pop from an empty set''))
      | wi # pool \<Rightarrow>
          (case api_clients_queue b of
             [] \<Rightarrow> None
           | api_client_dict # queue \<Rightarrow>
               Some (bindE (dict_del (acd_id api_client_dict) (api_clients_info b)) (\<lambda>info.
                 Inr (b\<lparr>workers_pool := pool, api_clients_queue := queue,
                         api_clients_info := info,
                         logged := logged b @ [Kill_main_worker]\<rparr>)))))"

text \<open>Lines 199 to 219 of one iteration, \<open>qsize\<close> being the size of the main queue.\<close>

definition scale :: "world \<Rightarrow> settings \<Rightarrow> nat \<Rightarrow> bridge \<Rightarrow> (error + bridge) option" where
  "scale w cfg qsize b =
     (if free_count cfg b > 0 \<and>
         real qsize > threshold (resource_items_queue_size cfg) (workers_inc_threshold cfg)
      then map_option (\<lambda>b1. Inr (spawn_worker b1)) (create_api_client w b)
      else if real qsize < threshold (resource_items_queue_size cfg) (workers_dec_threshold cfg)
      then (if int (length (workers_pool b)) > workers_min cfg then retire b else Some (Inr b))
      else Some (Inr b))"

text \<open>
  Lines 220 to 225: the two fill values. The main queue is divided by
  \<^verbatim>\<open>float(size) / 100\<close>, the retry queue by \<^verbatim>\<open>float(size)\<close> and then by 100.
\<close>

definition filled_resource_items_queue :: "settings \<Rightarrow> nat \<Rightarrow> error + real" where
  "filled_resource_items_queue cfg qsize =
     bindE (float_truediv (fl (of_nat qsize)) (fl (fl (of_int (resource_items_queue_size cfg)) / 100)))
       (\<lambda>x. Inr (py_round 2 x))"

definition filled_retry_resource_items_queue :: "settings \<Rightarrow> nat \<Rightarrow> error + real" where
  "filled_retry_resource_items_queue cfg qsize =
     bindE (float_truediv (fl (of_nat qsize)) (fl (of_int (retry_resource_items_queue_size cfg))))
       (\<lambda>y. Inr (py_round 2 (fl (y / 100))))"

definition log_fill :: "settings \<Rightarrow> nat \<Rightarrow> nat \<Rightarrow> bridge \<Rightarrow> error + bridge" where
  "log_fill cfg main_qsize retry_qsize b =
     bindE (filled_resource_items_queue cfg main_qsize) (\<lambda>x.
       bindE (filled_retry_resource_items_queue cfg retry_qsize) (\<lambda>y.
         Inr (b\<lparr>logged := logged b @ [Queue_filled x, Retry_queue_filled y]\<rparr>)))"

text \<open>
  One iteration of \<^verbatim>\<open>queues_controller\<close>: \<open>qsize\<close> is the size of the main queue read by
  the two comparisons, \<open>main_qsize\<close> and \<open>retry_qsize\<close> the sizes read for the log.
\<close>

definition queues_controller_step ::
  "world \<Rightarrow> settings \<Rightarrow> nat \<Rightarrow> nat \<Rightarrow> nat \<Rightarrow> bridge \<Rightarrow> (error + bridge) option" where
  "queues_controller_step w cfg qsize main_qsize retry_qsize b =
     (case scale w cfg qsize b of
        None \<Rightarrow> None
      | Some (Inl e) \<Rightarrow> Some (Inl e)
      | Some (Inr b1) \<Rightarrow> Some (log_fill cfg main_qsize retry_qsize b1))"

text \<open>
  Modelled from the spec: the worker plugin, which is not among the sources; the bridge
  hands \<^verbatim>\<open>api_clients_queue\<close> and \<^verbatim>\<open>api_clients_info\<close> to every worker it spawns (lines 204
  to 208, 254 to 258 and 266 to 270). Sections 4.A and 4.F of the specification: a worker
  acquires the client at the head of the queue and blocks while the queue is empty
  (\<open>None\<close>). The clients that workers hold are no attribute of the bridge; they are a
  second component of the state.
\<close>

definition acquire :: "bridge \<Rightarrow> api_client_dict list \<Rightarrow> (bridge \<times> api_client_dict list) option" where
  "acquire b held =
     (case api_clients_queue b of
        [] \<Rightarrow> None
      | api_client_dict # queue \<Rightarrow> Some (b\<lparr>api_clients_queue := queue\<rparr>, held @ [api_client_dict]))"

text \<open>
  Modelled from the spec: the worker plugin. Section 4.F, steps 2 and 4 to 6: while it
  holds a client a worker clears \<^verbatim>\<open>drop_cookies\<close> and records the duration of a request in
  the health entry of that client; \<open>f\<close> is the change it makes to the entry.
\<close>

definition update_health ::
  "cid \<Rightarrow> (client_info \<Rightarrow> client_info) \<Rightarrow> (cid \<times> client_info) list \<Rightarrow> (cid \<times> client_info) list" where
  "update_health client_id f info =
     map (\<lambda>(k, v). if k = client_id then (k, f v) else (k, v)) info"

text \<open>
  Modelled from the spec: the worker plugin. Sections 4.A and 4.F, steps 5 and 6: a worker
  releases the client it holds to the tail of the queue, with the \<^verbatim>\<open>request_interval\<close> and
  the counter it has set.
\<close>

definition release ::
  "api_client_dict \<Rightarrow> real \<Rightarrow> int \<Rightarrow> bridge \<Rightarrow> api_client_dict list \<Rightarrow> bridge \<times> api_client_dict list" where
  "release api_client_dict interval count b held =
     (b\<lparr>api_clients_queue := api_clients_queue b @
          [api_client_dict\<lparr>acd_request_interval := interval, acd_not_actual_count := count\<rparr>]\<rparr>,
      remove1 api_client_dict held)"

text \<open>
  The states the bridge and its workers reach through what touches the client queue or
  the health map: client creation, the spawning that follows it, an iteration of the
  controller, a tick of the watcher, and a worker that acquires a client, changes the
  health entry of a client it holds, or releases it. The second component lists the
  clients held by workers; a worker that is killed keeps the client it holds.
\<close>

inductive reachable :: "world \<Rightarrow> settings \<Rightarrow> bridge \<Rightarrow> api_client_dict list \<Rightarrow> bool"
  for w :: world and cfg :: settings where
  start: "reachable w cfg new_bridge []"
| created:
    "reachable w cfg b held \<Longrightarrow> create_api_client w b = Some b' \<Longrightarrow> reachable w cfg b' held"
| spawning: "reachable w cfg b held \<Longrightarrow> reachable w cfg (spawn_worker b) held"
| controlled:
    "reachable w cfg b held
       \<Longrightarrow> queues_controller_step w cfg qsize main_qsize retry_qsize b = Some (Inr b')
       \<Longrightarrow> reachable w cfg b' held"
| watched:
    "reachable w cfg b held
       \<Longrightarrow> perfomance_watcher cfg now now_prune (api_clients_info b) = Inr (rep, infos)
       \<Longrightarrow> reachable w cfg (b\<lparr>api_clients_info := infos\<rparr>) held"
| acquired:
    "reachable w cfg b held \<Longrightarrow> acquire b held = Some (b', held') \<Longrightarrow> reachable w cfg b' held'"
| used:
    "reachable w cfg b held \<Longrightarrow> c \<in> set held
       \<Longrightarrow> reachable w cfg
             (b\<lparr>api_clients_info := update_health (acd_id c) f (api_clients_info b)\<rparr>) held"
| released:
    "reachable w cfg b held \<Longrightarrow> c \<in> set held \<Longrightarrow> release c interval count b held = (b', held')
       \<Longrightarrow> reachable w cfg b' held'"

text \<open>
  The invariant of the pool: the ids of the clients on the queue and of the clients held
  by workers are together the keys of the health map, written without repetition, and
  every id was drawn from \<open>uuid4_hex\<close>.
\<close>

definition pool_inv :: "world \<Rightarrow> bridge \<Rightarrow> api_client_dict list \<Rightarrow> bool" where
  "pool_inv w b held \<longleftrightarrow>
     set (map acd_id (api_clients_queue b @ held)) = set (map fst (api_clients_info b)) \<and>
     distinct (map acd_id (api_clients_queue b @ held)) \<and>
     distinct (map fst (api_clients_info b)) \<and>
     (\<forall>c \<in> set (map acd_id (api_clients_queue b @ held)). \<exists>i < uuid_calls b. c = uuid4_hex w i)"

text \<open>
  A world for the examples: every call of the client constructor succeeds, and the
  identifiers drawn are \<open>a\<close>, \<open>aa\<close>, \<open>aaa\<close>, ...
\<close>

definition sample_world :: world where
  "sample_world = \<lparr>APIClient = (\<lambda>n. Started), uuid4_hex = (\<lambda>n. replicate (Suc n) CHR ''a'')\<rparr>"

definition sample_settings :: settings where
  "sample_settings =
     \<lparr>workers_min = 1, workers_max = 3, resource_items_queue_size = 100,
      retry_resource_items_queue_size = 100, workers_inc_threshold = 75,
      workers_dec_threshold = 35, perfomance_window = 300, watch_interval = 10\<rparr>"

text \<open>
  A state for the examples: two clients have been created and one worker spawned, and a
  worker has acquired the first client.
\<close>

definition sample_bridge :: bridge where
  "sample_bridge =
     \<lparr>api_clients_queue =
        [\<lparr>acd_id = ''aa'', acd_client = 1, acd_request_interval = 0, acd_not_actual_count = 0\<rparr>],
      api_clients_info =
        [(''a'', \<lparr>drop_cookies = False, request_durations = [], request_interval = 0,
                 avg_duration = 0, grown = None\<rparr>),
         (''aa'', \<lparr>drop_cookies = False, request_durations = [], request_interval = 0,
                  avg_duration = 0, grown = None\<rparr>)],
      workers_pool = [0], api_calls = 2, uuid_calls = 2, spawned = 1,
      logged = [Started_api_client, Create_main_worker, Started_api_client], slept = []\<rparr>"

definition sample_held :: "api_client_dict list" where
  "sample_held =
     [\<lparr>acd_id = ''a'', acd_client = 0, acd_request_interval = 0, acd_not_actual_count = 0\<rparr>]"

text \<open>
  The deviation in the words of the specification, for the comparison with the code:
  \<open>dev = round(std + avg, 3)\<close>, with \<open>avg\<close> the mean of the per-client averages and
  \<open>std = sqrt(mean((v - avg)\<^sup>2))\<close>, neither of them rounded before the addition.
\<close>

definition spec_dev :: "real list \<Rightarrow> real" where
  "spec_dev values =
     (let n = of_nat (length values);
          avg = fl (py_sum values / n);
          std = fl (sqrt (fl (py_sum (map (\<lambda>v. float_pow2 (float_sub v avg)) values) / n)))
      in py_round 3 (float_add std avg))"

section \<open>Properties of the rounding\<close>

lemma fl_zero [simp]: "fl 0 = 0"
  by (simp add: fl_def)

lemma rne_ge_floor: "\<lfloor>y\<rfloor> \<le> rne y"
  by (simp add: rne_def Let_def)

lemma rne_of_int: "rne (of_int i) = i"
  by (simp add: rne_def)

lemma floor_log2_bounds:
  assumes "x \<noteq> 0"
  shows "2 powr of_int \<lfloor>log 2 \<bar>x\<bar>\<rfloor> \<le> \<bar>x\<bar>" and "\<bar>x\<bar> < 2 powr of_int (\<lfloor>log 2 \<bar>x\<bar>\<rfloor> + 1)"
proof -
  have "0 < \<bar>x\<bar>" using assms by simp
  then have "2 powr of_int \<lfloor>log 2 \<bar>x\<bar>\<rfloor> \<le> \<bar>x\<bar> \<and> \<bar>x\<bar> < 2 powr of_int (\<lfloor>log 2 \<bar>x\<bar>\<rfloor> + 1)"
    using floor_log_eq_powr_iff[of "\<bar>x\<bar>" 2 "\<lfloor>log 2 \<bar>x\<bar>\<rfloor>"] by simp
  then show "2 powr of_int \<lfloor>log 2 \<bar>x\<bar>\<rfloor> \<le> \<bar>x\<bar>" and "\<bar>x\<bar> < 2 powr of_int (\<lfloor>log 2 \<bar>x\<bar>\<rfloor> + 1)"
    by simp_all
qed

lemma fl_eval:
  assumes "x \<noteq> 0" and "2 powr of_int k \<le> \<bar>x\<bar>" and "\<bar>x\<bar> < 2 powr of_int (k + 1)"
  shows "fl x = sgn x * of_int (rne (\<bar>x\<bar> / 2 powr of_int (k - 52))) * 2 powr of_int (k - 52)"
proof -
  have "0 < \<bar>x\<bar>" using assms(1) by simp
  then have "\<lfloor>log 2 \<bar>x\<bar>\<rfloor> = k"
    using assms(2,3) floor_log_eq_powr_iff[of "\<bar>x\<bar>" 2 k] by simp
  then show ?thesis
    using assms(1) by (simp add: fl_def Let_def)
qed

lemma fl_minus: "fl (- x) = - fl x"
  by (simp add: fl_def Let_def sgn_minus)

lemma powr2_succ: "(2::real) powr of_int (k + 1) = 2 * 2 powr of_int k"
  by (simp add: powr_add)

lemma fl_pos:
  assumes "0 < x"
  shows "0 < fl x"
proof -
  define e where "e = \<lfloor>log 2 \<bar>x\<bar>\<rfloor>"
  define u :: real where "u = 2 powr of_int (e - 52)"
  have xn: "x \<noteq> 0" using assms by simp
  have u: "0 < u" by (simp add: u_def)
  have "2 powr of_int e \<le> \<bar>x\<bar>"
    unfolding e_def by (rule floor_log2_bounds(1)[OF xn])
  then have "2 powr of_int e / u \<le> \<bar>x\<bar> / u"
    using u by (simp add: divide_right_mono)
  moreover have "2 powr of_int e / u = 2 powr 52"
    by (simp add: u_def flip: powr_diff)
  moreover have "(1::real) \<le> 2 powr 52" by simp
  ultimately have "(1::real) \<le> \<bar>x\<bar> / u"
    by linarith
  then have "1 \<le> \<lfloor>\<bar>x\<bar> / u\<rfloor>" by linarith
  then have "1 \<le> rne (\<bar>x\<bar> / u)" using rne_ge_floor[of "\<bar>x\<bar> / u"] by linarith
  then have "0 < of_int (rne (\<bar>x\<bar> / u)) * u"
    using u by simp
  moreover have "fl x = of_int (rne (\<bar>x\<bar> / u)) * u"
    using assms by (simp add: fl_def Let_def e_def u_def)
  ultimately show ?thesis by simp
qed

lemma fl_neg: "x < 0 \<Longrightarrow> fl x < 0"
  using fl_pos[of "- x"] by (simp add: fl_minus)

lemma fl_nonneg: "0 \<le> x \<Longrightarrow> 0 \<le> fl x"
  using fl_pos[of x] fl_zero by (cases "x = 0") (auto simp: less_eq_real_def)

lemma fl_double: "fl (2 * x) = 2 * fl x"
proof (cases "x = 0")
  case True
  then show ?thesis by (simp add: fl_zero)
next
  case False
  define k where "k = \<lfloor>log 2 \<bar>x\<bar>\<rfloor>"
  have b: "2 powr of_int k \<le> \<bar>x\<bar>" "\<bar>x\<bar> < 2 powr of_int (k + 1)"
    unfolding k_def by (rule floor_log2_bounds[OF False])+
  have x2: "\<bar>2 * x\<bar> = 2 * \<bar>x\<bar>" by (simp add: abs_mult)
  have b1: "2 powr of_int (k + 1) \<le> \<bar>2 * x\<bar>"
    unfolding x2 powr2_succ using b(1) by simp
  have b2: "\<bar>2 * x\<bar> < 2 powr of_int (k + 1 + 1)"
    unfolding x2 powr2_succ[of "k + 1"] using b(2) by simp
  have q: "(2::real) powr of_int (k + 1 - 52) = 2 * 2 powr of_int (k - 52)"
    using powr2_succ[of "k - 52"] by (simp add: algebra_simps)
  have n2: "2 * x \<noteq> 0" using False by simp
  have "fl (2 * x) = sgn (2 * x) * of_int (rne (\<bar>2 * x\<bar> / 2 powr of_int (k + 1 - 52))) * 2 powr of_int (k + 1 - 52)"
    by (rule fl_eval[OF n2 b1 b2])
  also have "\<dots> = 2 * (sgn x * of_int (rne (\<bar>x\<bar> / 2 powr of_int (k - 52))) * 2 powr of_int (k - 52))"
    unfolding q x2 by (simp add: sgn_mult)
  also have "\<dots> = 2 * fl x"
    using fl_eval[OF False b] by simp
  finally show ?thesis .
qed

lemma fl_exact:
  assumes "\<bar>m\<bar> < 2 ^ 53"
  shows "fl (of_int m * 2 powr of_int j) = of_int m * 2 powr of_int j"
proof (cases "m = 0")
  case True
  then show ?thesis by (simp add: fl_zero)
next
  case False
  define x :: real where "x = of_int m * 2 powr of_int j"
  define M :: real where "M = of_int \<bar>m\<bar>"
  define a where "a = \<lfloor>log 2 \<bar>M\<bar>\<rfloor>"
  have M1: "1 \<le> M" using False by (simp add: M_def int_one_le_iff_zero_less)
  have Mabs: "\<bar>M\<bar> = M" using M1 by simp
  have Mn: "M \<noteq> 0" using M1 by simp
  have a: "2 powr of_int a \<le> M" "M < 2 powr of_int (a + 1)"
    using floor_log2_bounds[OF Mn] by (simp_all add: a_def Mabs)
  have M53: "M < 2 powr 53"
  proof -
    have "of_int \<bar>m\<bar> < (of_int (2 ^ 53) :: real)" using assms by (simp only: of_int_less_iff)
    then show ?thesis by (simp add: M_def)
  qed
  have "(2::real) powr of_int a < 2 powr of_int 53"
    using a(1) M53 by simp
  then have "(of_int a :: real) < of_int 53"
    by (rule powr_less_cancel) simp
  then have a52: "a \<le> 52" by simp
  have xn: "x \<noteq> 0" using False by (simp add: x_def)
  have ax: "\<bar>x\<bar> = M * 2 powr of_int j" by (simp add: x_def M_def abs_mult)
  have sx: "sgn x * M = of_int m" by (simp add: x_def M_def sgn_mult flip: of_int_abs)
       (metis mult.commute mult_sgn_abs of_int_abs sgn_mult_abs)
  have b1: "2 powr of_int (a + j) \<le> \<bar>x\<bar>"
    using a(1) by (simp add: ax powr_add)
  have b2: "\<bar>x\<bar> < 2 powr of_int (a + j + 1)"
  proof -
    have "(2::real) powr of_int (a + j + 1) = 2 powr of_int (a + 1) * 2 powr of_int j"
      by (simp add: powr_add)
    then show ?thesis using a(2) by (simp add: ax)
  qed
  have d: "(2::real) powr of_int (a + j - 52) = 2 powr of_int j / 2 powr of_int (52 - a)"
    by (simp add: powr_diff powr_add field_simps)
  have p: "(2::real) powr of_int (52 - a) = of_int (2 ^ nat (52 - a))"
    using a52 powr_real_of_int[of 2 "52 - a"] by simp
  have "\<bar>x\<bar> / 2 powr of_int (a + j - 52) = M * 2 powr of_int (52 - a)"
    unfolding d ax by simp
  also have "\<dots> = of_int (\<bar>m\<bar> * 2 ^ nat (52 - a))"
    unfolding p M_def by simp
  finally have r: "rne (\<bar>x\<bar> / 2 powr of_int (a + j - 52)) = \<bar>m\<bar> * 2 ^ nat (52 - a)"
    by (simp only: rne_of_int)
  have "fl x = sgn x * of_int (\<bar>m\<bar> * 2 ^ nat (52 - a)) * 2 powr of_int (a + j - 52)"
    using fl_eval[OF xn b1 b2] unfolding r .
  also have "\<dots> = sgn x * (M * 2 powr of_int (52 - a)) * (2 powr of_int j / 2 powr of_int (52 - a))"
    unfolding p d M_def by simp
  also have "\<dots> = (sgn x * M) * 2 powr of_int j"
    by simp
  finally have "fl x = of_int m * 2 powr of_int j" unfolding sx .
  then show ?thesis unfolding x_def .
qed

lemma fl_of_int: "\<bar>i\<bar> < 2 ^ 53 \<Longrightarrow> fl (of_int i) = of_int i"
  using fl_exact[of i 0] by simp

lemma fl_numeral [simp]: "(numeral w :: int) < 2 ^ 53 \<Longrightarrow> fl (numeral w) = numeral w"
  using fl_of_int[of "numeral w"] by simp

lemma fl_one [simp]: "fl 1 = 1"
  using fl_of_int[of 1] by simp

lemma fl_eval_frac:
  assumes "x \<noteq> 0" and "2 ^ 52 \<le> \<bar>x\<bar> * 2 ^ n" and "\<bar>x\<bar> * 2 ^ n < 2 ^ 53"
  shows "fl x = sgn x * of_int (rne (\<bar>x\<bar> * 2 ^ n)) / 2 ^ n"
proof -
  define k where "k = 52 - int n"
  have u: "(2::real) powr of_int (k - 52) = 1 / 2 ^ n"
    by (simp add: k_def powr_minus powr_realpow inverse_eq_divide)
  have p1: "(2::real) powr of_int k = 2 ^ 52 / 2 ^ n"
    by (simp add: k_def powr_diff powr_realpow)
  have p2: "(2::real) powr of_int (k + 1) = 2 ^ 53 / 2 ^ n"
    unfolding powr2_succ p1 by simp
  have b1: "2 powr of_int k \<le> \<bar>x\<bar>"
    unfolding p1 using assms(2) by (simp add: pos_divide_le_eq)
  have b2: "\<bar>x\<bar> < 2 powr of_int (k + 1)"
    unfolding p2 using assms(3) by (simp add: pos_less_divide_eq)
  show ?thesis
    using fl_eval[OF assms(1) b1 b2] unfolding u by simp
qed

lemma fl_eval_int:
  assumes "x \<noteq> 0" and "2 ^ 52 \<le> \<bar>x\<bar> / 2 ^ n" and "\<bar>x\<bar> / 2 ^ n < 2 ^ 53"
  shows "fl x = sgn x * of_int (rne (\<bar>x\<bar> / 2 ^ n)) * 2 ^ n"
proof -
  define k where "k = 52 + int n"
  have u: "(2::real) powr of_int (k - 52) = 2 ^ n"
    by (simp add: k_def powr_realpow)
  have p1: "(2::real) powr of_int k = 2 ^ 52 * 2 ^ n"
    by (simp add: k_def powr_add powr_realpow)
  have p2: "(2::real) powr of_int (k + 1) = 2 ^ 53 * 2 ^ n"
    unfolding powr2_succ p1 by simp
  have b1: "2 powr of_int k \<le> \<bar>x\<bar>"
    unfolding p1 using assms(2) by (simp add: pos_le_divide_eq)
  have b2: "\<bar>x\<bar> < 2 powr of_int (k + 1)"
    unfolding p2 using assms(3) by (simp add: pos_divide_less_eq)
  show ?thesis
    using fl_eval[OF assms(1) b1 b2] unfolding u by simp
qed




lemma bindE_Inr [simp]: "bindE (Inr a) f = f a"
  by (simp add: bindE_def)

lemma bindE_Inl [simp]: "bindE (Inl e) f = Inl e"
  by (simp add: bindE_def)

lemma py_round_zero [simp]: "py_round n 0 = 0"
  by (simp add: py_round_def)

lemma client_average_eq:
  "client_average d info =
     Inr (if request_durations info = [] then None else Some (mean3 (map snd (request_durations info))),
          averaged d info)"
proof (cases "request_durations info")
  case Nil
  then show ?thesis by (simp add: client_average_def averaged_def)
next
  case (Cons a ds)
  then show ?thesis
    by (simp add: client_average_def averaged_def float_truediv_def mean3_def Let_def)
qed

lemma average_loop_eq:
  "average_loop d infos = Inr (sampled_means infos, map (\<lambda>(c, info). (c, averaged d info)) infos)"
  by (induction infos) (auto simp: client_average_eq sampled_means_def)

lemma foldl_float_add_nonneg:
  "0 \<le> a \<Longrightarrow> \<forall>x \<in> set xs. 0 \<le> x \<Longrightarrow> 0 \<le> foldl float_add a xs"
  by (induction xs arbitrary: a) (simp_all add: float_add_def fl_nonneg)

lemma py_sum_nonneg: "\<forall>x \<in> set xs. 0 \<le> x \<Longrightarrow> 0 \<le> py_sum xs"
  unfolding py_sum_def by (rule foldl_float_add_nonneg) simp_all

lemma get_average_requests_duration_eq:
  "get_average_requests_duration cfg now infos =
     Inr (overall_mean3 (sampled_means infos), sampled_means infos,
          map (\<lambda>(c, info). (c, averaged (now - 1000000 * perfomance_window cfg) info)) infos)"
  by (simp add: get_average_requests_duration_def average_loop_eq overall_mean3_def float_truediv_def)

lemma calculate_st_dev_eq: "calculate_st_dev xs = Inr (std3 xs)"
proof (cases "xs = []")
  case True
  then show ?thesis by (simp add: calculate_st_dev_def std3_def)
next
  case False
  define avg where "avg = fl (float_mul (py_sum xs) 1 / of_nat (length xs))"
  define variance where "variance = map (\<lambda>x. float_pow2 (float_sub x avg)) xs"
  have "\<forall>v \<in> set variance. 0 \<le> v"
    by (auto simp: variance_def float_pow2_def intro!: fl_nonneg)
  then have "0 \<le> py_sum variance" by (rule py_sum_nonneg)
  then have "0 \<le> float_mul (py_sum variance) 1 / of_nat (length variance)"
    by (simp add: float_mul_def fl_nonneg)
  then have nn: "\<not> fl (float_mul (py_sum variance) 1 / of_nat (length variance)) < 0"
    using fl_nonneg by (simp add: not_less)
  have len: "length variance = length xs" by (simp add: variance_def)
  show ?thesis
    using False nn
    by (simp add: calculate_st_dev_def std3_def float_truediv_def math_sqrt_def Let_def
        avg_def[symmetric] variance_def[symmetric] len)
qed

lemma perfomance_watcher_eq:
  "\<exists>rep. perfomance_watcher cfg now now_prune infos =
           Inr (rep, map (\<lambda>(c, info). (c, tick_entry cfg now (now_prune c) (tick_dev infos) info)) infos)
         \<and> msg_dev rep = tick_dev infos"
proof (cases "sampled_means infos")
  case Nil
  then show ?thesis
    by (simp add: perfomance_watcher_def get_average_requests_duration_eq calculate_st_dev_eq
        mark_bad_clients_def tick_entry_def tick_dev_def Let_def case_prod_unfold comp_def)
next
  case (Cons v vs)
  then show ?thesis
    by (simp add: perfomance_watcher_def get_average_requests_duration_eq calculate_st_dev_eq
        mark_bad_clients_def tick_entry_def tick_dev_def Let_def case_prod_unfold comp_def)
qed

lemma perfomance_watcher_result:
  assumes "perfomance_watcher cfg now now_prune infos = Inr (rep, infos')"
  shows "infos' = map (\<lambda>(c, info). (c, tick_entry cfg now (now_prune c) (msg_dev rep) info)) infos"
    and "msg_dev rep = tick_dev infos"
  using assms perfomance_watcher_eq[of cfg now now_prune infos] by auto

lemma entry_fields:
  "request_durations (tick_entry cfg now now_c dev info) =
     filter (\<lambda>(key, d). \<not> key < now_c - 1000000 * (perfomance_window cfg + watch_interval cfg))
       (request_durations info)"
  "avg_duration (tick_entry cfg now now_c dev info) =
     (if request_durations info = [] then avg_duration info
      else mean3 (map snd (request_durations info)))"
  "grown (tick_entry cfg now now_c dev info) =
     (if request_durations info \<noteq> [] \<and>
         fold min (map fst (tl (request_durations info))) (fst (hd (request_durations info)))
           \<le> now - 1000000 * perfomance_window cfg
      then Some True else grown info)"
  "request_interval (tick_entry cfg now now_c dev info) = request_interval info"
  by (simp_all add: tick_entry_def mark_client_def prune_durations_def averaged_def Let_def)

lemma entry_drop_cookies:
  "drop_cookies (tick_entry cfg now now_c dev info) =
     (drop_cookies info \<or>
      (let b = tick_entry cfg now now_c dev info in
       get_grown b \<and> avg_duration b > dev \<or> avg_duration b < dev \<and> request_interval b > 0))"
  by (auto simp: tick_entry_def mark_client_def prune_durations_def averaged_def Let_def get_grown_def)

lemma averaged_no_samples: "request_durations info = [] \<Longrightarrow> averaged d info = info"
  by (simp add: averaged_def)

lemma prune_no_samples: "request_durations info = [] \<Longrightarrow> prune_durations d info = info"
  by (simp add: prune_durations_def)

lemma sampled_means_no_samples:
  "\<forall>(c, info) \<in> set infos. request_durations info = [] \<Longrightarrow> sampled_means infos = []"
  by (auto simp: sampled_means_def filter_empty_conv)

lemma floor_int_half: "\<lfloor>of_int k + (1/2::real)\<rfloor> = k"
  by (rule floor_unique) simp_all

lemma py_round_of_nat:
  assumes "int k < 2 ^ 53"
  shows "py_round n (of_nat k) = of_nat k"
proof -
  have "\<bar>real k\<bar> * 10 ^ n + 1 / 2 = of_int (int k * 10 ^ n) + 1 / 2" by simp
  then have "\<lfloor>\<bar>real k\<bar> * 10 ^ n + 1 / 2\<rfloor> = int k * 10 ^ n"
    by (simp only: floor_int_half)
  then have "py_round n (of_nat k) = fl (sgn (real k) * real k)"
    by (simp add: py_round_def)
  also have "sgn (real k) * real k = of_int (int k)"
    by (cases "k = 0") simp_all
  also have "fl (of_int (int k)) = of_int (int k)"
    using assms by (intro fl_of_int) simp
  finally show ?thesis by simp
qed

lemma py_round_numeral [simp]:
  "(numeral w :: int) < 2 ^ 53 \<Longrightarrow> py_round n (numeral w) = numeral w"
  using py_round_of_nat[of "numeral w" n] by simp

lemma fold_min_le_iff:
  "fold min xs (x::'a::linorder) \<le> c \<longleftrightarrow> x \<le> c \<or> (\<exists>y \<in> set xs. y \<le> c)"
  by (induction xs arbitrary: x) (auto simp: min_le_iff_disj)

lemma oldest_le_iff:
  "ds \<noteq> [] \<Longrightarrow>
   fold min (map fst (tl ds)) (fst (hd ds)) \<le> (c::int) \<longleftrightarrow> (\<exists>key \<in> fst ` set ds. key \<le> c)"
  by (cases ds) (auto simp: fold_min_le_iff)

lemmas watcher_defs =
  perfomance_watcher_def get_average_requests_duration_def client_average_def
  calculate_st_dev_def mark_bad_clients_def mark_client_def prune_durations_def
  float_truediv_def float_mul_def float_add_def float_sub_def float_pow2_def math_sqrt_def
  py_sum_def get_grown_def Let_def

lemma rne_eq:
  assumes "of_int m - 1/2 < y" and "y < of_int m + 1/2"
  shows "rne y = m"
proof -
  have "\<lfloor>y\<rfloor> = m \<or> \<lfloor>y\<rfloor> = m - 1" using assms by linarith
  then show ?thesis
  proof
    assume f: "\<lfloor>y\<rfloor> = m"
    then have "y - of_int \<lfloor>y\<rfloor> < 1/2" using assms by simp
    then show ?thesis using f by (simp add: rne_def Let_def)
  next
    assume f: "\<lfloor>y\<rfloor> = m - 1"
    then have "1/2 < y - of_int \<lfloor>y\<rfloor>" using assms by simp
    then show ?thesis using f by (simp add: rne_def Let_def)
  qed
qed

lemma fl_sqrt_eval:
  assumes "0 < q" and "2 ^ 52 < m" and "m < 2 ^ 53 - 1"
    and "(of_int m - 1/2)\<^sup>2 < q * 4 ^ n" and "q * 4 ^ n < (of_int m + 1/2)\<^sup>2"
  shows "fl (sqrt q) = of_int m / 2 ^ n"
proof -
  define y where "y = sqrt q * 2 ^ n"
  have y0: "0 \<le> y" using assms(1) by (simp add: y_def)
  have "(4::real) ^ n = (2 ^ n)\<^sup>2" by (simp add: power_even_eq power2_eq_square flip: power_mult_distrib)
  then have y2: "y\<^sup>2 = q * 4 ^ n" using assms(1) by (simp add: y_def power_mult_distrib)
  have m0: "(0::real) \<le> of_int m + 1/2" using assms(2) by simp
  have lo: "of_int m - 1/2 < y"
    using assms(4) y0 unfolding y2[symmetric] by (rule power2_less_imp_less)
  have hi: "y < of_int m + 1/2"
    using assms(5) m0 unfolding y2[symmetric] by (rule power2_less_imp_less)
  have r: "rne y = m" using lo hi by (rule rne_eq)
  have m1: "(2::real) ^ 52 + 1 \<le> of_int m"
  proof -
    have "(2::int) ^ 52 + 1 \<le> m" using assms(2) by simp
    then have "of_int ((2::int) ^ 52 + 1) \<le> (of_int m :: real)" by (simp only: of_int_le_iff)
    then show ?thesis by simp
  qed
  have m2: "(of_int m :: real) + 1 \<le> 2 ^ 53 - 1"
  proof -
    have "m + 1 \<le> (2::int) ^ 53 - 1" using assms(3) by simp
    then have "(of_int (m + 1) :: real) \<le> of_int ((2::int) ^ 53 - 1)" by (simp only: of_int_le_iff)
    then show ?thesis by simp
  qed
  have sq: "sqrt q \<noteq> 0" "\<bar>sqrt q\<bar> = sqrt q" "sgn (sqrt q) = 1" using assms(1) by simp_all
  have b1: "2 ^ 52 \<le> \<bar>sqrt q\<bar> * 2 ^ n" using lo m1 by (simp add: sq y_def)
  have b2: "\<bar>sqrt q\<bar> * 2 ^ n < 2 ^ 53" using hi m2 by (simp add: sq y_def)
  show ?thesis
    using fl_eval_frac[OF sq(1) b1 b2] r by (simp add: sq y_def)
qed

section \<open>The performance watcher\<close>

text \<open>
  Claim C8. When no client has a recorded request duration, a tick of the watcher
  completes: no division by zero (nor any other error) is raised, and every number of the
  report is 0, in particular the gauges \<open>REQUESTS_AVG\<close>, \<open>REQUESTS_DEV\<close>,
  \<open>REQUESTS_MIN_AVG\<close> and \<open>REQUESTS_MAX_AVG\<close>. The clients are then classified against
  a deviation of 0.
\<close>

theorem perfomance_watcher_no_samples:
  assumes "\<forall>(c, info) \<in> set infos. request_durations info = []"
  shows "perfomance_watcher cfg now now_prune infos =
           Inr (\<lparr>msg_stdev = 0, msg_dev = 0, msg_min_avg = 0, msg_max_avg = 0, msg_avg = 0,
                  REQUESTS_DEV = 0, REQUESTS_MIN_AVG = 0, REQUESTS_MAX_AVG = 0, REQUESTS_AVG = 0\<rparr>,
                mark_bad_clients 0 infos)"
proof -
  have a: "map (\<lambda>(c, info). (c, averaged (now - 1000000 * perfomance_window cfg) info)) infos = infos"
    using assms by (intro map_idI) (auto simp: averaged_no_samples)
  have p: "map (\<lambda>(c, info). (c, prune_durations (f c) info)) infos = infos" for f
    using assms by (intro map_idI) (auto simp: prune_no_samples)
  show ?thesis
    by (simp add: perfomance_watcher_def get_average_requests_duration_eq calculate_st_dev_eq
        sampled_means_no_samples[OF assms] overall_mean3_def std3_def a p float_add_def float_mul_def)
qed

theorem perfomance_watcher_no_samples_witness:
  "perfomance_watcher
     \<lparr>workers_min = 1, workers_max = 3, resource_items_queue_size = 100,
      retry_resource_items_queue_size = 100, workers_inc_threshold = 75,
      workers_dec_threshold = 35, perfomance_window = 300, watch_interval = 10\<rparr>
     1000000000 (\<lambda>c. 1000000000)
     [(''c1'', \<lparr>drop_cookies = False, request_durations = [], request_interval = 0,
               avg_duration = 0, grown = None\<rparr>)]
   = Inr (\<lparr>msg_stdev = 0, msg_dev = 0, msg_min_avg = 0, msg_max_avg = 0, msg_avg = 0,
            REQUESTS_DEV = 0, REQUESTS_MIN_AVG = 0, REQUESTS_MAX_AVG = 0, REQUESTS_AVG = 0\<rparr>,
          [(''c1'', \<lparr>drop_cookies = False, request_durations = [], request_interval = 0,
               avg_duration = 0, grown = None\<rparr>)])"
  using perfomance_watcher_no_samples[of
      "[(''c1'', \<lparr>drop_cookies = False, request_durations = [], request_interval = 0,
               avg_duration = 0, grown = None\<rparr>)]"]
  by (simp add: mark_bad_clients_def mark_client_def get_grown_def)

text \<open>
  Claim C2, as amended. A tick computes the per-client means first and prunes afterwards.
  For every client, with \<open>ds\<close> its samples at the start of the tick: after the tick
  \<open>avg_duration\<close> is the mean of all of \<open>ds\<close> rounded to 3 decimals (unchanged when
  \<open>ds\<close> is empty); \<open>grown\<close> is true exactly when it was true before or some sample of
  \<open>ds\<close> is at least \<open>perfomance_window\<close> old; and \<open>request_durations\<close> is \<open>ds\<close> without
  the entries older than \<open>now - (perfomance_window + watch_interval)\<close>. The tick always
  completes.
\<close>

theorem watcher_averages_before_pruning:
  "\<exists>rep infos'.
     perfomance_watcher cfg now now_prune infos = Inr (rep, infos') \<and>
     length infos' = length infos \<and>
     (\<forall>i < length infos.
        fst (infos' ! i) = fst (infos ! i) \<and>
        request_durations (snd (infos' ! i)) =
          filter (\<lambda>(key, d). \<not> key < now_prune (fst (infos ! i))
                    - 1000000 * (perfomance_window cfg + watch_interval cfg))
            (request_durations (snd (infos ! i))) \<and>
        avg_duration (snd (infos' ! i)) =
          (if request_durations (snd (infos ! i)) = [] then avg_duration (snd (infos ! i))
           else py_round 3 (fl (float_mul (py_sum (map snd (request_durations (snd (infos ! i))))) 1
                  / of_nat (length (request_durations (snd (infos ! i))))))) \<and>
        (get_grown (snd (infos' ! i)) \<longleftrightarrow>
           get_grown (snd (infos ! i)) \<or>
           (\<exists>key \<in> fst ` set (request_durations (snd (infos ! i))).
              key \<le> now - 1000000 * perfomance_window cfg)))"
proof -
  obtain rep where rep:
    "perfomance_watcher cfg now now_prune infos =
       Inr (rep, map (\<lambda>(c, info). (c, tick_entry cfg now (now_prune c) (tick_dev infos) info)) infos)"
    using perfomance_watcher_eq[of cfg now now_prune infos] by blast
  define infos' where
    "infos' = map (\<lambda>(c, info). (c, tick_entry cfg now (now_prune c) (tick_dev infos) info)) infos"
  have nth: "infos' ! i = (fst (infos ! i),
      tick_entry cfg now (now_prune (fst (infos ! i))) (tick_dev infos) (snd (infos ! i)))"
    if "i < length infos" for i
    using that by (simp add: infos'_def case_prod_unfold)
  have g: "get_grown (tick_entry cfg now nc dev a) \<longleftrightarrow>
             get_grown a \<or> (\<exists>key \<in> fst ` set (request_durations a).
                key \<le> now - 1000000 * perfomance_window cfg)" for nc dev a
  proof (cases "request_durations a = []")
    case True
    then show ?thesis by (simp add: get_grown_def entry_fields)
  next
    case False
    then show ?thesis
      using oldest_le_iff[OF False, of "now - 1000000 * perfomance_window cfg"]
      by (auto simp: get_grown_def entry_fields)
  qed
  have "length infos' = length infos" by (simp add: infos'_def)
  moreover have "\<forall>i < length infos.
        fst (infos' ! i) = fst (infos ! i) \<and>
        request_durations (snd (infos' ! i)) =
          filter (\<lambda>(key, d). \<not> key < now_prune (fst (infos ! i))
                    - 1000000 * (perfomance_window cfg + watch_interval cfg))
            (request_durations (snd (infos ! i))) \<and>
        avg_duration (snd (infos' ! i)) =
          (if request_durations (snd (infos ! i)) = [] then avg_duration (snd (infos ! i))
           else py_round 3 (fl (float_mul (py_sum (map snd (request_durations (snd (infos ! i))))) 1
                  / of_nat (length (request_durations (snd (infos ! i))))))) \<and>
        (get_grown (snd (infos' ! i)) \<longleftrightarrow>
           get_grown (snd (infos ! i)) \<or>
           (\<exists>key \<in> fst ` set (request_durations (snd (infos ! i))).
              key \<le> now - 1000000 * perfomance_window cfg))"
    by (intro allI impI) (simp add: nth g entry_fields mean3_def)
  ultimately show ?thesis
    using rep unfolding infos'_def[symmetric] by blast
qed

text \<open>
  One client with a single sample of 2 seconds taken 1000 seconds ago: the tick sets
  \<open>avg_duration\<close> to 2 and \<open>grown\<close>, and deletes the sample.
\<close>

theorem watcher_averages_before_pruning_witness:
  "\<exists>rep infos'.
     perfomance_watcher
       \<lparr>workers_min = 1, workers_max = 3, resource_items_queue_size = 100,
      retry_resource_items_queue_size = 100, workers_inc_threshold = 75,
      workers_dec_threshold = 35, perfomance_window = 300, watch_interval = 10\<rparr>
       1000000000 (\<lambda>c. 1000000000)
       [(''c1'', \<lparr>drop_cookies = False, request_durations = [(0, 2)], request_interval = 0,
                 avg_duration = 0, grown = None\<rparr>)] = Inr (rep, infos') \<and>
     length infos' = 1 \<and> fst (infos' ! 0) = ''c1'' \<and>
     request_durations (snd (infos' ! 0)) = [] \<and>
     avg_duration (snd (infos' ! 0)) = 2 \<and>
     get_grown (snd (infos' ! 0))"
  using watcher_averages_before_pruning[of
      "\<lparr>workers_min = 1, workers_max = 3, resource_items_queue_size = 100,
      retry_resource_items_queue_size = 100, workers_inc_threshold = 75,
      workers_dec_threshold = 35, perfomance_window = 300, watch_interval = 10\<rparr>"
      1000000000 "\<lambda>c. 1000000000"
      "[(''c1'', \<lparr>drop_cookies = False, request_durations = [(0, 2)], request_interval = 0,
                 avg_duration = 0, grown = None\<rparr>)]"]
  by (simp add: float_mul_def py_sum_def float_add_def get_grown_def)

text \<open>
  Claim C2 as stated fails. A client holds a sample of 2 seconds taken 1000 seconds ago
  and one of 4 seconds taken 100 seconds ago; the window is 300 seconds, the watch
  interval 10. The prune leaves only the second sample, whose mean is 4 and which is
  younger than the window; yet the tick stores the mean 3 of both samples and sets
  \<open>grown\<close>. Pruning first and averaging the remaining samples (\<open>averaged\<close> after
  \<open>prune_durations\<close>) would store 4 and leave \<open>grown\<close> unset.
\<close>

theorem watcher_prunes_after_averaging_counterexample:
  "perfomance_watcher
     \<lparr>workers_min = 1, workers_max = 3, resource_items_queue_size = 100,
      retry_resource_items_queue_size = 100, workers_inc_threshold = 75,
      workers_dec_threshold = 35, perfomance_window = 300, watch_interval = 10\<rparr>
     1000000000 (\<lambda>c. 1000000000)
     [(''c1'', \<lparr>drop_cookies = False, request_durations = [(0, 2), (900000000, 4)],
               request_interval = 0, avg_duration = 0, grown = None\<rparr>)]
   = Inr (\<lparr>msg_stdev = 0, msg_dev = 3, msg_min_avg = 3000, msg_max_avg = 3000, msg_avg = 3,
            REQUESTS_DEV = 3000, REQUESTS_MIN_AVG = 3000, REQUESTS_MAX_AVG = 3000,
            REQUESTS_AVG = 3000\<rparr>,
          [(''c1'', \<lparr>drop_cookies = False, request_durations = [(900000000, 4)],
               request_interval = 0, avg_duration = 3, grown = Some True\<rparr>)])
   \<and> averaged (1000000000 - 1000000 * 300)
        (prune_durations (1000000000 - 1000000 * (300 + 10))
          \<lparr>drop_cookies = False, request_durations = [(0, 2), (900000000, 4)],
           request_interval = 0, avg_duration = 0, grown = None\<rparr>)
      = \<lparr>drop_cookies = False, request_durations = [(900000000, 4)],
           request_interval = 0, avg_duration = 4, grown = None\<rparr>"
  by (simp add: watcher_defs averaged_def mean3_def)

text \<open>
  Claim C10. A tick never resets \<open>grown\<close>: a client whose flag is true keeps it. A client
  with no sample at the start of the tick keeps its \<open>avg_duration\<close> and its \<open>grown\<close>
  unchanged; and if that stale flag is true and the stale average exceeds the deviation
  of this tick, the tick sets \<open>drop_cookies\<close> although the client has no sample left.
\<close>

theorem watcher_keeps_grown_and_stale_average:
  "\<exists>rep infos'.
     perfomance_watcher cfg now now_prune infos = Inr (rep, infos') \<and>
     length infos' = length infos \<and>
     (\<forall>i < length infos.
        fst (infos' ! i) = fst (infos ! i) \<and>
        (get_grown (snd (infos ! i)) \<longrightarrow> get_grown (snd (infos' ! i))) \<and>
        (request_durations (snd (infos ! i)) = [] \<longrightarrow>
           avg_duration (snd (infos' ! i)) = avg_duration (snd (infos ! i)) \<and>
           grown (snd (infos' ! i)) = grown (snd (infos ! i)) \<and>
           (get_grown (snd (infos ! i)) \<and> avg_duration (snd (infos ! i)) > msg_dev rep
              \<longrightarrow> drop_cookies (snd (infos' ! i)))))"
proof -
  obtain rep infos' where w: "perfomance_watcher cfg now now_prune infos = Inr (rep, infos')"
    using perfomance_watcher_eq[of cfg now now_prune infos] by blast
  note r = perfomance_watcher_result[OF w]
  have len: "length infos' = length infos" by (simp add: r(1))
  have nth: "infos' ! i = (fst (infos ! i),
      tick_entry cfg now (now_prune (fst (infos ! i))) (msg_dev rep) (snd (infos ! i)))"
    if "i < length infos" for i
    using that by (simp add: r(1) case_prod_unfold)
  have "\<forall>i < length infos.
        fst (infos' ! i) = fst (infos ! i) \<and>
        (get_grown (snd (infos ! i)) \<longrightarrow> get_grown (snd (infos' ! i))) \<and>
        (request_durations (snd (infos ! i)) = [] \<longrightarrow>
           avg_duration (snd (infos' ! i)) = avg_duration (snd (infos ! i)) \<and>
           grown (snd (infos' ! i)) = grown (snd (infos ! i)) \<and>
           (get_grown (snd (infos ! i)) \<and> avg_duration (snd (infos ! i)) > msg_dev rep
              \<longrightarrow> drop_cookies (snd (infos' ! i))))"
  proof (intro conjI allI impI)
    fix i assume i: "i < length infos"
    show "fst (infos' ! i) = fst (infos ! i)" by (simp add: nth[OF i])
    show "get_grown (snd (infos' ! i))" if "get_grown (snd (infos ! i))"
      using that by (simp add: nth[OF i] get_grown_def entry_fields)
    show "avg_duration (snd (infos' ! i)) = avg_duration (snd (infos ! i))"
      if "request_durations (snd (infos ! i)) = []"
      using that by (simp add: nth[OF i] entry_fields)
    show "grown (snd (infos' ! i)) = grown (snd (infos ! i))"
      if "request_durations (snd (infos ! i)) = []"
      using that by (simp add: nth[OF i] entry_fields)
    show "drop_cookies (snd (infos' ! i))"
      if "request_durations (snd (infos ! i)) = []"
        and "get_grown (snd (infos ! i)) \<and> avg_duration (snd (infos ! i)) > msg_dev rep"
      using that
      by (simp add: nth[OF i] entry_drop_cookies[of cfg now _ _ "snd (infos ! i)"] Let_def
          entry_fields get_grown_def)
  qed
  with w len show ?thesis by blast
qed

text \<open>
  Two ticks, 1000 seconds apart. The first finds a sample of 5 seconds taken 1000 seconds
  before, stores the average 5, sets \<open>grown\<close> and deletes the sample. The second finds no
  sample at all, computes the deviation 0 and sets \<open>drop_cookies\<close> from the stale values.
\<close>

theorem watcher_keeps_grown_and_stale_average_witness:
  "perfomance_watcher
     \<lparr>workers_min = 1, workers_max = 3, resource_items_queue_size = 100,
      retry_resource_items_queue_size = 100, workers_inc_threshold = 75,
      workers_dec_threshold = 35, perfomance_window = 300, watch_interval = 10\<rparr>
     1000000000 (\<lambda>c. 1000000000)
     [(''c1'', \<lparr>drop_cookies = False, request_durations = [(0, 5)], request_interval = 0,
               avg_duration = 0, grown = None\<rparr>)]
   = Inr (\<lparr>msg_stdev = 0, msg_dev = 5, msg_min_avg = 5000, msg_max_avg = 5000, msg_avg = 5,
            REQUESTS_DEV = 5000, REQUESTS_MIN_AVG = 5000, REQUESTS_MAX_AVG = 5000,
            REQUESTS_AVG = 5000\<rparr>,
          [(''c1'', \<lparr>drop_cookies = False, request_durations = [], request_interval = 0,
               avg_duration = 5, grown = Some True\<rparr>)])
   \<and> (\<exists>rep infos'.
        perfomance_watcher
          \<lparr>workers_min = 1, workers_max = 3, resource_items_queue_size = 100,
      retry_resource_items_queue_size = 100, workers_inc_threshold = 75,
      workers_dec_threshold = 35, perfomance_window = 300, watch_interval = 10\<rparr>
          2000000000 (\<lambda>c. 2000000000)
          [(''c1'', \<lparr>drop_cookies = False, request_durations = [], request_interval = 0,
               avg_duration = 5, grown = Some True\<rparr>)] = Inr (rep, infos') \<and>
        msg_dev rep = 0 \<and> length infos' = 1 \<and>
        avg_duration (snd (infos' ! 0)) = 5 \<and> grown (snd (infos' ! 0)) = Some True \<and>
        request_durations (snd (infos' ! 0)) = [] \<and> drop_cookies (snd (infos' ! 0)))"
proof -
  have e: "perfomance_watcher
          \<lparr>workers_min = 1, workers_max = 3, resource_items_queue_size = 100,
      retry_resource_items_queue_size = 100, workers_inc_threshold = 75,
      workers_dec_threshold = 35, perfomance_window = 300, watch_interval = 10\<rparr>
          2000000000 (\<lambda>c. 2000000000)
          [(''c1'', \<lparr>drop_cookies = False, request_durations = [], request_interval = 0,
               avg_duration = 5, grown = Some True\<rparr>)]
     = Inr (\<lparr>msg_stdev = 0, msg_dev = 0, msg_min_avg = 0, msg_max_avg = 0, msg_avg = 0,
            REQUESTS_DEV = 0, REQUESTS_MIN_AVG = 0, REQUESTS_MAX_AVG = 0, REQUESTS_AVG = 0\<rparr>,
          [(''c1'', \<lparr>drop_cookies = True, request_durations = [], request_interval = 0,
               avg_duration = 5, grown = Some True\<rparr>)])"
    by (simp add: watcher_defs)
  show ?thesis
    using watcher_keeps_grown_and_stale_average[of
      "\<lparr>workers_min = 1, workers_max = 3, resource_items_queue_size = 100,
      retry_resource_items_queue_size = 100, workers_inc_threshold = 75,
      workers_dec_threshold = 35, perfomance_window = 300, watch_interval = 10\<rparr>"
      2000000000 "\<lambda>c. 2000000000"
      "[(''c1'', \<lparr>drop_cookies = False, request_durations = [], request_interval = 0,
               avg_duration = 5, grown = Some True\<rparr>)]"]
    by (simp add: e) (simp add: watcher_defs)
qed

text \<open>
  Claim C1, as amended. A tick always completes, and for every client \<open>drop_cookies\<close> is
  true after it exactly when it was true before or, on the fields the tick leaves,
  \<open>grown\<close> holds and \<open>avg_duration > dev\<close>, or \<open>avg_duration < dev\<close> and
  \<open>request_interval > 0\<close>. Here \<open>dev = round(round(std, 3) + round(avg, 3), 3)\<close>: the mean
  \<open>avg\<close> of the per-client averages and their standard deviation \<open>std\<close> are each
  rounded to 3 decimals before they are added (\<open>overall_mean3\<close> and \<open>std3\<close> of
  \<open>sampled_means\<close>, the averages of the clients that have a sample at the start of the
  tick; both are 0 when there is none).
\<close>

theorem watcher_marks_against_rounded_deviation:
  "\<exists>rep infos'.
     perfomance_watcher cfg now now_prune infos = Inr (rep, infos') \<and>
     msg_dev rep =
       py_round 3 (float_add (std3 (sampled_means infos)) (overall_mean3 (sampled_means infos))) \<and>
     length infos' = length infos \<and>
     (\<forall>i < length infos.
        (drop_cookies (snd (infos' ! i)) \<longleftrightarrow>
           drop_cookies (snd (infos ! i)) \<or>
           get_grown (snd (infos' ! i)) \<and> avg_duration (snd (infos' ! i)) > msg_dev rep \<or>
           avg_duration (snd (infos' ! i)) < msg_dev rep \<and> request_interval (snd (infos' ! i)) > 0))"
proof -
  obtain rep infos' where w: "perfomance_watcher cfg now now_prune infos = Inr (rep, infos')"
    using perfomance_watcher_eq[of cfg now now_prune infos] by blast
  note r = perfomance_watcher_result[OF w]
  have nth: "infos' ! i = (fst (infos ! i),
      tick_entry cfg now (now_prune (fst (infos ! i))) (msg_dev rep) (snd (infos ! i)))"
    if "i < length infos" for i
    using that by (simp add: r(1) case_prod_unfold)
  have "\<forall>i < length infos.
        (drop_cookies (snd (infos' ! i)) \<longleftrightarrow>
           drop_cookies (snd (infos ! i)) \<or>
           get_grown (snd (infos' ! i)) \<and> avg_duration (snd (infos' ! i)) > msg_dev rep \<or>
           avg_duration (snd (infos' ! i)) < msg_dev rep \<and> request_interval (snd (infos' ! i)) > 0)"
  proof (intro allI impI)
    fix i assume i: "i < length infos"
    show "drop_cookies (snd (infos' ! i)) \<longleftrightarrow>
           drop_cookies (snd (infos ! i)) \<or>
           get_grown (snd (infos' ! i)) \<and> avg_duration (snd (infos' ! i)) > msg_dev rep \<or>
           avg_duration (snd (infos' ! i)) < msg_dev rep \<and> request_interval (snd (infos' ! i)) > 0"
      unfolding nth[OF i] snd_conv
      by (subst entry_drop_cookies) (simp add: Let_def)
  qed
  moreover have "length infos' = length infos" by (simp add: r(1))
  moreover have "msg_dev rep =
       py_round 3 (float_add (std3 (sampled_means infos)) (overall_mean3 (sampled_means infos)))"
    by (simp add: r(2) tick_dev_def)
  ultimately show ?thesis using w by blast
qed

text \<open>
  Two clients with one sample each, of 1 and 3 seconds: the averages are 1 and 3, their
  mean 2 and deviation 1, so \<open>dev = 3\<close>. The first client has a positive
  \<open>request_interval\<close> and an average below 3, and is marked; the second is not.
\<close>

theorem watcher_marks_against_rounded_deviation_witness:
  "\<exists>rep infos'.
     perfomance_watcher
       \<lparr>workers_min = 1, workers_max = 3, resource_items_queue_size = 100,
      retry_resource_items_queue_size = 100, workers_inc_threshold = 75,
      workers_dec_threshold = 35, perfomance_window = 300, watch_interval = 10\<rparr>
       1000000000 (\<lambda>c. 1000000000)
       [(''c1'', \<lparr>drop_cookies = False, request_durations = [(900000000, 1)],
                 request_interval = 1 / 2, avg_duration = 0, grown = None\<rparr>),
        (''c2'', \<lparr>drop_cookies = False, request_durations = [(900000000, 3)],
                 request_interval = 0, avg_duration = 0, grown = None\<rparr>)] = Inr (rep, infos') \<and>
     msg_dev rep = 3 \<and> length infos' = 2 \<and>
     drop_cookies (snd (infos' ! 0)) \<and> \<not> drop_cookies (snd (infos' ! 1))"
proof -
  have e: "perfomance_watcher
       \<lparr>workers_min = 1, workers_max = 3, resource_items_queue_size = 100,
      retry_resource_items_queue_size = 100, workers_inc_threshold = 75,
      workers_dec_threshold = 35, perfomance_window = 300, watch_interval = 10\<rparr>
       1000000000 (\<lambda>c. 1000000000)
       [(''c1'', \<lparr>drop_cookies = False, request_durations = [(900000000, 1)],
                 request_interval = 1 / 2, avg_duration = 0, grown = None\<rparr>),
        (''c2'', \<lparr>drop_cookies = False, request_durations = [(900000000, 3)],
                 request_interval = 0, avg_duration = 0, grown = None\<rparr>)]
     = Inr (\<lparr>msg_stdev = 1, msg_dev = 3, msg_min_avg = 1000, msg_max_avg = 3000, msg_avg = 2,
            REQUESTS_DEV = 3000, REQUESTS_MIN_AVG = 1000, REQUESTS_MAX_AVG = 3000,
            REQUESTS_AVG = 2000\<rparr>,
       [(''c1'', \<lparr>drop_cookies = True, request_durations = [(900000000, 1)],
                 request_interval = 1 / 2, avg_duration = 1, grown = None\<rparr>),
        (''c2'', \<lparr>drop_cookies = False, request_durations = [(900000000, 3)],
                 request_interval = 0, avg_duration = 3, grown = None\<rparr>)])"
    using py_round_of_nat[of 1 3] by (simp add: watcher_defs fl_minus)
  show ?thesis
    using watcher_marks_against_rounded_deviation[of
       "\<lparr>workers_min = 1, workers_max = 3, resource_items_queue_size = 100,
      retry_resource_items_queue_size = 100, workers_inc_threshold = 75,
      workers_dec_threshold = 35, perfomance_window = 300, watch_interval = 10\<rparr>"
       1000000000 "\<lambda>c. 1000000000"
       "[(''c1'', \<lparr>drop_cookies = False, request_durations = [(900000000, 1)],
                 request_interval = 1 / 2, avg_duration = 0, grown = None\<rparr>),
        (''c2'', \<lparr>drop_cookies = False, request_durations = [(900000000, 3)],
                 request_interval = 0, avg_duration = 0, grown = None\<rparr>)]"]
    by (simp add: e)
qed

text \<open>
  Claim C1 as stated fails. Three clients hold one sample each, of 0.001, 0.002 and 0.005
  seconds (the doubles nearest to these), the third sample older than the window. The
  mean of the averages is 0.00267 and their deviation 0.00170: rounded first they add up
  to \<open>dev = 0.003 + 0.002 = 0.005\<close>, whereas \<open>round(std + avg, 3) = 0.004\<close>. The third
  client has \<open>grown\<close> and an average of 0.005, above 0.004, and the tick leaves its
  \<open>drop_cookies\<close> false.
\<close>

theorem watcher_rounds_before_adding_counterexample:
  "perfomance_watcher
     \<lparr>workers_min = 1, workers_max = 3, resource_items_queue_size = 100,
      retry_resource_items_queue_size = 100, workers_inc_threshold = 75,
      workers_dec_threshold = 35, perfomance_window = 300, watch_interval = 10\<rparr>
     1000000000 (\<lambda>c. 1000000000)
     [(''c1'', \<lparr>drop_cookies = False, request_durations = [(900000000, fl (1 / 1000))],
               request_interval = 0, avg_duration = 0, grown = None\<rparr>),
      (''c2'', \<lparr>drop_cookies = False, request_durations = [(900000000, fl (1 / 500))],
               request_interval = 0, avg_duration = 0, grown = None\<rparr>),
      (''c3'', \<lparr>drop_cookies = False, request_durations = [(695000000, fl (1 / 200))],
               request_interval = 0, avg_duration = 0, grown = None\<rparr>)]
   = Inr (\<lparr>msg_stdev = fl (1 / 500), msg_dev = fl (1 / 200), msg_min_avg = 1, msg_max_avg = 5,
            msg_avg = fl (3 / 1000),
            REQUESTS_DEV = 5, REQUESTS_MIN_AVG = 1, REQUESTS_MAX_AVG = 5, REQUESTS_AVG = 3\<rparr>,
     [(''c1'', \<lparr>drop_cookies = False, request_durations = [(900000000, fl (1 / 1000))],
               request_interval = 0, avg_duration = fl (1 / 1000), grown = None\<rparr>),
      (''c2'', \<lparr>drop_cookies = False, request_durations = [(900000000, fl (1 / 500))],
               request_interval = 0, avg_duration = fl (1 / 500), grown = None\<rparr>),
      (''c3'', \<lparr>drop_cookies = False, request_durations = [(695000000, fl (1 / 200))],
               request_interval = 0, avg_duration = fl (1 / 200), grown = Some True\<rparr>)])
   \<and> spec_dev [fl (1 / 1000), fl (1 / 500), fl (1 / 200)] = fl (1 / 250)
   \<and> fl (1 / 250) < fl (1 / 200)"
proof -
  have f1: "fl (1 / 1000) = 1152921504606847 / 1152921504606846976"
    using fl_eval_frac[of "1 / 1000" 62] by (simp add: rne_def)
  have f2: "fl (1 / 500) = 1152921504606847 / 576460752303423488"
    using fl_eval_frac[of "1 / 500" 61] by (simp add: rne_def)
  have f3: "fl (1 / 200) = 5764607523034235 / 1152921504606846976"
    using fl_eval_frac[of "1 / 200" 60] by (simp add: rne_def)
  have f4: "fl (1152921504606847 / 1152921504606846976) = 1152921504606847 / 1152921504606846976"
    using fl_eval_frac[of "1152921504606847 / 1152921504606846976" 62] by (simp add: rne_def)
  have f5: "fl (1152921504606847 / 576460752303423488) = 1152921504606847 / 576460752303423488"
    using fl_eval_frac[of "1152921504606847 / 576460752303423488" 61] by (simp add: rne_def)
  have f6: "fl (5764607523034235 / 1152921504606846976) = 5764607523034235 / 1152921504606846976"
    using fl_eval_frac[of "5764607523034235 / 1152921504606846976" 60] by (simp add: rne_def)
  have f7: "fl (3458764513820541 / 1152921504606846976) = 3458764513820541 / 1152921504606846976"
    using fl_eval_frac[of "3458764513820541 / 1152921504606846976" 61] by (simp add: rne_def)
  have f8: "fl (1152921504606847 / 144115188075855872) = 1152921504606847 / 144115188075855872"
    using fl_eval_frac[of "1152921504606847 / 144115188075855872" 59] by (simp add: rne_def)
  have f9: "fl (1152921504606847 / 432345564227567616) = 6148914691236517 / 2305843009213693952"
    using fl_eval_frac[of "1152921504606847 / 432345564227567616" 61] by (simp add: rne_def)
  have f10: "fl (3 / 1000) = 3458764513820541 / 1152921504606846976"
    using fl_eval_frac[of "3 / 1000" 61] by (simp add: rne_def)
  have f11: "fl (3843071682022823 / 2305843009213693952) = 3843071682022823 / 2305843009213693952"
    using fl_eval_frac[of "3843071682022823 / 2305843009213693952" 62] by (simp add: rne_def)
  have f12: "fl (14769199953165729973997092889329 / 5316911983139663491615228241121378304) = 6558842337318951 / 2361183241434822606848"
    using fl_eval_frac[of "14769199953165729973997092889329 / 5316911983139663491615228241121378304" 71] by (simp add: rne_def)
  have f13: "fl (1537228672809129 / 2305843009213693952) = 1537228672809129 / 2305843009213693952"
    using fl_eval_frac[of "1537228672809129 / 2305843009213693952" 63] by (simp add: rne_def)
  have f14: "fl (2363071992506516180948065738641 / 5316911983139663491615228241121378304) = 8395318191768255 / 18889465931478580854784"
    using fl_eval_frac[of "2363071992506516180948065738641 / 5316911983139663491615228241121378304" 74] by (simp add: rne_def)
  have f15: "fl (5380300354831953 / 2305843009213693952) = 5380300354831953 / 2305843009213693952"
    using fl_eval_frac[of "5380300354831953 / 2305843009213693952" 61] by (simp add: rne_def)
  have f16: "fl (28947631908204839357514869794209 / 5316911983139663491615228241121378304) = 3213832745286287 / 590295810358705651712"
    using fl_eval_frac[of "28947631908204839357514869794209 / 5316911983139663491615228241121378304" 70] by (simp add: rne_def)
  have f17: "fl (6558842337318951 / 2361183241434822606848) = 6558842337318951 / 2361183241434822606848"
    using fl_eval_frac[of "6558842337318951 / 2361183241434822606848" 71] by (simp add: rne_def)
  have f18: "fl (60866056890319863 / 18889465931478580854784) = 7608257111289983 / 2361183241434822606848"
    using fl_eval_frac[of "60866056890319863 / 18889465931478580854784" 71] by (simp add: rne_def)
  have f19: "fl (20463588092435131 / 2361183241434822606848) = 5115897023108783 / 590295810358705651712"
    using fl_eval_frac[of "20463588092435131 / 2361183241434822606848" 69] by (simp add: rne_def)
  have f20: "fl (5115897023108783 / 590295810358705651712) = 5115897023108783 / 590295810358705651712"
    using fl_eval_frac[of "5115897023108783 / 590295810358705651712" 69] by (simp add: rne_def)
  have f21: "fl (5115897023108783 / 1770887431076116955136) = 6821196030811711 / 2361183241434822606848"
    using fl_eval_frac[of "5115897023108783 / 1770887431076116955136" 71] by (simp add: rne_def)
  have f22: "fl (sqrt (6821196030811711 / 2361183241434822606848)) = 7838358999508089 / 4611686018427387904"
    using fl_sqrt_eval[of "6821196030811711 / 2361183241434822606848" 7838358999508089 62]
    by (simp add: power2_eq_square)
  have f23: "fl (144115188075855875 / 144115188075855872) = 1"
    using fl_eval_frac[of "144115188075855875 / 144115188075855872" 52] by (simp add: rne_def)
  have f24: "fl (720575940379279375 / 144115188075855872) = 5"
    using fl_eval_frac[of "720575940379279375 / 144115188075855872" 50] by (simp add: rne_def)
  have f25: "fl (432345564227567625 / 144115188075855872) = 3"
    using fl_eval_frac[of "432345564227567625 / 144115188075855872" 51] by (simp add: rne_def)
  have f26: "fl (20136188381981123 / 4611686018427387904) = 5034047095495281 / 1152921504606846976"
    using fl_eval_frac[of "20136188381981123 / 4611686018427387904" 60] by (simp add: rne_def)
  have f27: "fl (1 / 250) = 1152921504606847 / 288230376151711744"
    using fl_eval_frac[of "1 / 250" 60] by (simp add: rne_def)
  note fs = f1 f2 f3 f4 f5 f6 f7 f8 f9 f10 f11 f12 f13 f14 f15 f16 f17 f18 f19 f20 f21 f22 f23 f24 f25 f26 f27
  have w: "perfomance_watcher
     \<lparr>workers_min = 1, workers_max = 3, resource_items_queue_size = 100,
      retry_resource_items_queue_size = 100, workers_inc_threshold = 75,
      workers_dec_threshold = 35, perfomance_window = 300, watch_interval = 10\<rparr>
     1000000000 (\<lambda>c. 1000000000)
     [(''c1'', \<lparr>drop_cookies = False, request_durations = [(900000000, fl (1 / 1000))],
               request_interval = 0, avg_duration = 0, grown = None\<rparr>),
      (''c2'', \<lparr>drop_cookies = False, request_durations = [(900000000, fl (1 / 500))],
               request_interval = 0, avg_duration = 0, grown = None\<rparr>),
      (''c3'', \<lparr>drop_cookies = False, request_durations = [(695000000, fl (1 / 200))],
               request_interval = 0, avg_duration = 0, grown = None\<rparr>)]
   = Inr (\<lparr>msg_stdev = fl (1 / 500), msg_dev = fl (1 / 200), msg_min_avg = 1, msg_max_avg = 5,
            msg_avg = fl (3 / 1000),
            REQUESTS_DEV = 5, REQUESTS_MIN_AVG = 1, REQUESTS_MAX_AVG = 5, REQUESTS_AVG = 3\<rparr>,
     [(''c1'', \<lparr>drop_cookies = False, request_durations = [(900000000, fl (1 / 1000))],
               request_interval = 0, avg_duration = fl (1 / 1000), grown = None\<rparr>),
      (''c2'', \<lparr>drop_cookies = False, request_durations = [(900000000, fl (1 / 500))],
               request_interval = 0, avg_duration = fl (1 / 500), grown = None\<rparr>),
      (''c3'', \<lparr>drop_cookies = False, request_durations = [(695000000, fl (1 / 200))],
               request_interval = 0, avg_duration = fl (1 / 200), grown = Some True\<rparr>)])"
    by (simp add: watcher_defs py_round_def fl_minus fs)
  have s: "spec_dev [fl (1 / 1000), fl (1 / 500), fl (1 / 200)] = fl (1 / 250)"
    by (simp add: spec_dev_def watcher_defs py_round_def fl_minus fs)
  have c: "fl (1 / 250) < fl (1 / 200)"
    by (simp add: fs)
  show ?thesis using w s c by blast
qed

section \<open>Creating a client\<close>

lemma float_mul_two_exact:
  assumes "\<bar>m\<bar> < 2 ^ 53"
  shows "float_mul (of_int m * 2 powr of_int j) 2 = of_int m * 2 powr of_int (j + 1)"
proof -
  have "(of_int m :: real) * 2 powr of_int j * 2 = of_int m * 2 powr of_int (j + 1)"
    by (simp add: powr_add)
  then show ?thesis
    using fl_exact[OF assms, of "j + 1"] by (simp only: float_mul_def)
qed

lemma create_loop_succeeds:
  assumes "\<bar>m\<bar> < 2 ^ 53"
    and "\<forall>i<n. APIClient w (api_calls b + i) \<noteq> Started"
    and "APIClient w (api_calls b + n) = Started"
  shows "create_api_client_loop w (of_int m * 2 powr of_int j) b =
           Some (register_client w
             (b\<lparr>api_calls := api_calls b + n,
                logged := logged b @ concat (map (\<lambda>k.
                    [failure_entry (APIClient w (api_calls b + k)),
                     Will_sleep (of_int m * 2 powr of_int (j + 1 + int k))]) [0..<n]),
                slept := slept b @ map (\<lambda>k. of_int m * 2 powr of_int (j + 1 + int k)) [0..<n]\<rparr>))"
  using assms(2,3)
proof (induction n arbitrary: b j)
  case 0
  then show ?case
    by (subst create_api_client_loop.simps) simp
next
  case (Suc n)
  define t' :: real where "t' = of_int m * 2 powr of_int (j + 1)"
  have t': "float_mul (of_int m * 2 powr of_int j) 2 = t'"
    unfolding t'_def by (rule float_mul_two_exact[OF assms(1)])
  have a0: "APIClient w (api_calls b) \<noteq> Started"
    using Suc.prems(1) by (metis add.right_neutral zero_less_Suc)
  define b1 where "b1 = retry_after (failure_entry (APIClient w (api_calls b))) t' b"
  have c1: "api_calls b1 = Suc (api_calls b)" by (simp add: b1_def retry_after_def)
  have p1: "\<forall>i<n. APIClient w (api_calls b1 + i) \<noteq> Started"
    using Suc.prems(1) by (auto simp: c1)
  have p2: "APIClient w (api_calls b1 + n) = Started"
    using Suc.prems(2) by (simp add: c1)
  have step: "create_api_client_loop w (of_int m * 2 powr of_int j) b =
              create_api_client_loop w t' b1"
    using a0 by (subst create_api_client_loop.simps)
      (simp add: t' b1_def failure_entry_def split: attempt.splits)
  have e: "of_int (j + 1 + 1 + int k) = (of_int (j + 1 + int (Suc k)) :: real)" for k
    by simp
  show ?case
    unfolding step t'_def
    by (subst Suc.IH[OF p1 p2])
      (simp add: b1_def retry_after_def t'_def map_upt_Suc c1 e add.assoc del: upt_Suc)
qed

lemma create_loop_Some_D:
  assumes a: "create_api_client_loop w t b = Some y"
  shows "\<exists>i. APIClient w (api_calls b + i) = Started"
proof (rule create_api_client_loop.raw_induct[where
      P = "\<lambda>w t b y. \<exists>i. APIClient w (api_calls b + i) = Started", OF _ a], goal_cases)
  case (1 f w t b y)
  show ?case
  proof (cases "APIClient w (api_calls b)")
    case Started
    then have "APIClient w (api_calls b + 0) = Started" by simp
    then show ?thesis by blast
  next
    case (RequestFailed s)
    with 1(2) have "f w (float_mul t 2) (retry_after (Failed_start_status s) (float_mul t 2) b) = Some y"
      by simp
    from 1(1)[OF this] obtain i where "APIClient w (Suc (api_calls b) + i) = Started"
      unfolding retry_after_def by auto
    then have "APIClient w (api_calls b + Suc i) = Started" by simp
    then show ?thesis by blast
  next
    case (OtherException s)
    with 1(2) have "f w (float_mul t 2) (retry_after (Failed_start_error s) (float_mul t 2) b) = Some y"
      by simp
    from 1(1)[OF this] obtain i where "APIClient w (Suc (api_calls b) + i) = Started"
      unfolding retry_after_def by auto
    then have "APIClient w (api_calls b + Suc i) = Started" by simp
    then show ?thesis by blast
  qed
qed

lemma create_loop_diverges:
  assumes "\<forall>i. APIClient w (api_calls b + i) \<noteq> Started"
  shows "create_api_client_loop w t b = None"
  using assms create_loop_Some_D[of w t b] by (cases "create_api_client_loop w t b") auto

lemma fl_tenth: "fl (1 / 10) = of_int 3602879701896397 * 2 powr of_int (- 55)"
  using fl_eval_frac[of "1 / 10" 56] by (simp add: rne_def powr_neg_numeral)

lemma sleep_value:
  "of_int 3602879701896397 * 2 powr of_int (- 55 + 1 + int k) = 2 ^ (k + 1) * fl (1 / 10)"
proof -
  have "(2::real) powr of_int (- 55 + 1 + int k) = 2 powr of_int (- 55) * 2 powr of_int (int (k + 1))"
    by (simp flip: powr_add)
  also have "(2::real) powr of_int (int (k + 1)) = 2 ^ (k + 1)"
    by (simp only: of_int_of_nat_eq powr_realpow zero_less_numeral)
  finally show ?thesis by (simp add: fl_tenth)
qed

lemma create_api_client_succeeds:
  assumes "\<forall>i<n. APIClient w (api_calls b + i) \<noteq> Started"
    and "APIClient w (api_calls b + n) = Started"
  shows "create_api_client w b =
           Some (register_client w
             (b\<lparr>api_calls := api_calls b + n,
                logged := logged b @ concat (map (\<lambda>k.
                    [failure_entry (APIClient w (api_calls b + k)),
                     Will_sleep (2 ^ (k + 1) * fl (1 / 10))]) [0..<n]),
                slept := slept b @ map (\<lambda>k. 2 ^ (k + 1) * fl (1 / 10)) [0..<n]\<rparr>))"
proof -
  have m: "\<bar>3602879701896397 :: int\<bar> < 2 ^ 53" by simp
  show ?thesis
    unfolding create_api_client_def
    by (subst fl_tenth, subst create_loop_succeeds[OF m assms]) (simp only: sleep_value)
qed

text \<open>
  Claim C5, as amended. If the constructor fails \<open>n\<close> times and then succeeds,
  \<^verbatim>\<open>create_api_client\<close> returns after \<open>n\<close> sleeps, the \<open>k\<close>-th of them (counted from 1) of
  \<open>0.1 * 2^k\<close> seconds: the timeout starts at 0.1 and is doubled before each sleep, so the
  first sleep lasts 0.2 seconds, and nothing caps it. Each failure is logged before its
  sleep, a \<^verbatim>\<open>RequestFailed\<close> with its status code and any other exception with its
  message. On success the client is appended to the queue and a health entry with
  \<open>drop_cookies = False\<close>, no \<open>request_durations\<close>, \<open>request_interval = 0\<close> and
  \<open>avg_duration = 0\<close> is stored under its id. If the constructor fails every time, the
  method never returns.
\<close>

theorem create_api_client_backoff:
  "((\<forall>i<n. APIClient w (api_calls b + i) \<noteq> Started) \<and> APIClient w (api_calls b + n) = Started \<longrightarrow>
      (\<exists>b'. create_api_client w b = Some b' \<and>
         slept b' = slept b @ map (\<lambda>k. 2 ^ (k + 1) * fl (1 / 10)) [0..<n] \<and>
         logged b' = logged b @ concat (map (\<lambda>k.
             [failure_entry (APIClient w (api_calls b + k)),
              Will_sleep (2 ^ (k + 1) * fl (1 / 10))]) [0..<n]) @ [Started_api_client] \<and>
         api_clients_queue b' = api_clients_queue b @
           [\<lparr>acd_id = uuid4_hex w (uuid_calls b), acd_client = api_calls b + n,
             acd_request_interval = 0, acd_not_actual_count = 0\<rparr>] \<and>
         api_clients_info b' =
           dict_set (uuid4_hex w (uuid_calls b))
             \<lparr>drop_cookies = False, request_durations = [], request_interval = 0,
              avg_duration = 0, grown = None\<rparr> (api_clients_info b) \<and>
         workers_pool b' = workers_pool b))
   \<and> ((\<forall>i. APIClient w (api_calls b + i) \<noteq> Started) \<longrightarrow> create_api_client w b = None)"
proof (intro conjI impI)
  assume "(\<forall>i<n. APIClient w (api_calls b + i) \<noteq> Started) \<and> APIClient w (api_calls b + n) = Started"
  then have "create_api_client w b =
           Some (register_client w
             (b\<lparr>api_calls := api_calls b + n,
                logged := logged b @ concat (map (\<lambda>k.
                    [failure_entry (APIClient w (api_calls b + k)),
                     Will_sleep (2 ^ (k + 1) * fl (1 / 10))]) [0..<n]),
                slept := slept b @ map (\<lambda>k. 2 ^ (k + 1) * fl (1 / 10)) [0..<n]\<rparr>))"
    using create_api_client_succeeds by blast
  then show "\<exists>b'. create_api_client w b = Some b' \<and>
         slept b' = slept b @ map (\<lambda>k. 2 ^ (k + 1) * fl (1 / 10)) [0..<n] \<and>
         logged b' = logged b @ concat (map (\<lambda>k.
             [failure_entry (APIClient w (api_calls b + k)),
              Will_sleep (2 ^ (k + 1) * fl (1 / 10))]) [0..<n]) @ [Started_api_client] \<and>
         api_clients_queue b' = api_clients_queue b @
           [\<lparr>acd_id = uuid4_hex w (uuid_calls b), acd_client = api_calls b + n,
             acd_request_interval = 0, acd_not_actual_count = 0\<rparr>] \<and>
         api_clients_info b' =
           dict_set (uuid4_hex w (uuid_calls b))
             \<lparr>drop_cookies = False, request_durations = [], request_interval = 0,
              avg_duration = 0, grown = None\<rparr> (api_clients_info b) \<and>
         workers_pool b' = workers_pool b"
    by (simp add: register_client_def Let_def)
next
  assume "\<forall>i. APIClient w (api_calls b + i) \<noteq> Started"
  then show "create_api_client w b = None"
    unfolding create_api_client_def by (rule create_loop_diverges)
qed

text \<open>Two failures with status 503 and then a success; and a constructor that always fails.\<close>

theorem create_api_client_backoff_witness:
  "(\<exists>b'. create_api_client
            \<lparr>APIClient = (\<lambda>n. if n < 2 then RequestFailed 503 else Started),
             uuid4_hex = (\<lambda>n. ''c0'')\<rparr> new_bridge = Some b' \<and>
         slept b' = [2 * fl (1 / 10), 4 * fl (1 / 10)] \<and>
         logged b' = [Failed_start_status 503, Will_sleep (2 * fl (1 / 10)),
                      Failed_start_status 503, Will_sleep (4 * fl (1 / 10)), Started_api_client] \<and>
         api_clients_queue b' =
           [\<lparr>acd_id = ''c0'', acd_client = 2, acd_request_interval = 0, acd_not_actual_count = 0\<rparr>] \<and>
         api_clients_info b' =
           [(''c0'', \<lparr>drop_cookies = False, request_durations = [], request_interval = 0,
              avg_duration = 0, grown = None\<rparr>)])
   \<and> create_api_client
            \<lparr>APIClient = (\<lambda>n. RequestFailed 503), uuid4_hex = (\<lambda>n. ''c0'')\<rparr> new_bridge = None"
  using create_api_client_backoff[of 2
      "\<lparr>APIClient = (\<lambda>n. if n < 2 then RequestFailed 503 else Started), uuid4_hex = (\<lambda>n. ''c0'')\<rparr>"
      new_bridge]
    create_api_client_backoff[of 0
      "\<lparr>APIClient = (\<lambda>n. RequestFailed 503), uuid4_hex = (\<lambda>n. ''c0'')\<rparr>" new_bridge]
  by (auto simp add: new_bridge_def failure_entry_def eval_nat_numeral)

text \<open>
  Claim C5 as stated fails. After a single failure the bridge sleeps 0.2 seconds, not
  0.1; and a failure that is not a \<^verbatim>\<open>RequestFailed\<close> is logged with its message, there
  being no status code.
\<close>

theorem create_api_client_first_sleep_counterexample:
  "map_option slept (create_api_client
      \<lparr>APIClient = (\<lambda>n. if n = 0 then RequestFailed 503 else Started),
       uuid4_hex = (\<lambda>n. ''c0'')\<rparr> new_bridge) = Some [fl (1 / 5)]
   \<and> fl (1 / 10) < fl (1 / 5)
   \<and> map_option logged (create_api_client
      \<lparr>APIClient = (\<lambda>n. if n = 0 then OtherException ''timed out'' else Started),
       uuid4_hex = (\<lambda>n. ''c0'')\<rparr> new_bridge)
     = Some [Failed_start_error ''timed out'', Will_sleep (fl (1 / 5)), Started_api_client]"
proof -
  have t: "fl (1 / 10) = 3602879701896397 / 36028797018963968"
    using fl_eval_frac[of "1 / 10" 56] by (simp add: rne_def)
  have f: "fl (1 / 5) = 3602879701896397 / 18014398509481984"
    using fl_eval_frac[of "1 / 5" 55] by (simp add: rne_def)
  have d: "2 * fl (1 / 10) = fl (1 / 5)" by (simp add: t f)
  show ?thesis
    using create_api_client_succeeds[of 1
      "\<lparr>APIClient = (\<lambda>n. if n = 0 then RequestFailed 503 else Started), uuid4_hex = (\<lambda>n. ''c0'')\<rparr>"
      new_bridge]
     create_api_client_succeeds[of 1
      "\<lparr>APIClient = (\<lambda>n. if n = 0 then OtherException ''timed out'' else Started), uuid4_hex = (\<lambda>n. ''c0'')\<rparr>"
      new_bridge]
    by (simp add: new_bridge_def register_client_def failure_entry_def d Let_def) (simp add: t f)
qed

section \<open>The pool and the health map\<close>

lemma dict_set_keys:
  "map fst (dict_set k v d) = (if k \<in> set (map fst d) then map fst d else map fst d @ [k])"
  by (induction d) (force simp: image_iff)+

lemma dict_del_keys:
  "dict_del k d = Inr d' \<Longrightarrow> map fst d' = filter (\<lambda>c. c \<noteq> k) (map fst d)"
  by (auto simp: dict_del_def filter_map comp_def split: if_splits)

lemma update_health_keys: "map fst (update_health k f info) = map fst info"
  by (induction info) (auto simp: update_health_def)

lemma create_loop_shape:
  assumes a: "create_api_client_loop w t b = Some y"
  shows "\<exists>b0. y = register_client w b0 \<and> api_clients_queue b0 = api_clients_queue b \<and>
           api_clients_info b0 = api_clients_info b \<and> uuid_calls b0 = uuid_calls b \<and>
           workers_pool b0 = workers_pool b"
proof (rule create_api_client_loop.raw_induct[where
      P = "\<lambda>w t b y. \<exists>b0. y = register_client w b0 \<and> api_clients_queue b0 = api_clients_queue b \<and>
           api_clients_info b0 = api_clients_info b \<and> uuid_calls b0 = uuid_calls b \<and>
           workers_pool b0 = workers_pool b", OF _ a], goal_cases)
  case (1 f w t b y)
  show ?case
  proof (cases "APIClient w (api_calls b)")
    case Started
    with 1(2) have "y = register_client w b" by simp
    then show ?thesis by blast
  next
    case (RequestFailed s)
    with 1(2) have "f w (float_mul t 2) (retry_after (Failed_start_status s) (float_mul t 2) b) = Some y"
      by simp
    from 1(1)[OF this] show ?thesis by (simp add: retry_after_def)
  next
    case (OtherException s)
    with 1(2) have "f w (float_mul t 2) (retry_after (Failed_start_error s) (float_mul t 2) b) = Some y"
      by simp
    from 1(1)[OF this] show ?thesis by (simp add: retry_after_def)
  qed
qed

lemma register_client_ids:
  assumes "inj (uuid4_hex w)" and "pool_inv w b0 held"
  shows "uuid4_hex w (uuid_calls b0) \<notin> set (map fst (api_clients_info b0))"
    and "map acd_id (api_clients_queue (register_client w b0))
           = map acd_id (api_clients_queue b0) @ [uuid4_hex w (uuid_calls b0)]"
    and "map fst (api_clients_info (register_client w b0))
           = map fst (api_clients_info b0) @ [uuid4_hex w (uuid_calls b0)]"
proof -
  define c where "c = uuid4_hex w (uuid_calls b0)"
  have fresh: "c \<notin> set (map acd_id (api_clients_queue b0 @ held))"
  proof
    assume "c \<in> set (map acd_id (api_clients_queue b0 @ held))"
    then obtain i where "i < uuid_calls b0" "c = uuid4_hex w i"
      using assms(2) unfolding pool_inv_def by blast
    then show False using assms(1) by (auto simp: c_def inj_def)
  qed
  have eq: "set (map acd_id (api_clients_queue b0 @ held)) = set (map fst (api_clients_info b0))"
    using assms(2) unfolding pool_inv_def by blast
  show fresh': "uuid4_hex w (uuid_calls b0) \<notin> set (map fst (api_clients_info b0))"
    using fresh unfolding eq c_def .
  show "map acd_id (api_clients_queue (register_client w b0))
           = map acd_id (api_clients_queue b0) @ [uuid4_hex w (uuid_calls b0)]"
    by (simp add: register_client_def Let_def)
  show "map fst (api_clients_info (register_client w b0))
           = map fst (api_clients_info b0) @ [uuid4_hex w (uuid_calls b0)]"
    using fresh' by (simp add: register_client_def Let_def dict_set_keys)
qed

lemma pool_inv_register:
  assumes "inj (uuid4_hex w)" and "pool_inv w b0 held"
  shows "pool_inv w (register_client w b0) held"
proof -
  define c where "c = uuid4_hex w (uuid_calls b0)"
  define qids where "qids = map acd_id (api_clients_queue b0)"
  define hids where "hids = map acd_id held"
  define keys where "keys = map fst (api_clients_info b0)"
  define n where "n = uuid_calls b0"
  have inv: "set (qids @ hids) = set keys" "distinct (qids @ hids)" "distinct keys"
    "\<forall>x \<in> set (qids @ hids). \<exists>i < n. x = uuid4_hex w i"
    using assms(2) unfolding pool_inv_def qids_def hids_def keys_def n_def by simp_all
  have f1: "c \<notin> set keys"
    using register_client_ids(1)[OF assms] by (simp add: c_def keys_def)
  then have f2: "c \<notin> set (qids @ hids)" using inv(1) by simp
  have q: "map acd_id (api_clients_queue (register_client w b0) @ held) = (qids @ [c]) @ hids"
    using register_client_ids(2)[OF assms] by (simp add: c_def qids_def hids_def)
  have i: "map fst (api_clients_info (register_client w b0)) = keys @ [c]"
    using register_client_ids(3)[OF assms] by (simp add: c_def keys_def)
  have u: "uuid_calls (register_client w b0) = Suc n"
    by (simp add: register_client_def Let_def n_def)
  have "set ((qids @ [c]) @ hids) = set (keys @ [c])" using inv(1) by auto
  moreover have "distinct ((qids @ [c]) @ hids)" using inv(2) f2 by auto
  moreover have "distinct (keys @ [c])" using inv(3) f1 by simp
  moreover have "\<forall>x \<in> set ((qids @ [c]) @ hids). \<exists>i < Suc n. x = uuid4_hex w i"
  proof
    fix x assume "x \<in> set ((qids @ [c]) @ hids)"
    then consider "x \<in> set (qids @ hids)" | "x = c" by auto
    then show "\<exists>i < Suc n. x = uuid4_hex w i"
    proof cases
      case 1
      then obtain i where "i < n" "x = uuid4_hex w i" using inv(4) by blast
      then show ?thesis using less_Suc_eq by blast
    next
      case 2
      then show ?thesis unfolding c_def n_def by blast
    qed
  qed
  ultimately show ?thesis
    unfolding pool_inv_def q i u by blast
qed

lemma pool_inv_cong:
  assumes "pool_inv w b0 held" and "api_clients_queue b = api_clients_queue b0"
    and "map fst (api_clients_info b) = map fst (api_clients_info b0)" and "uuid_calls b = uuid_calls b0"
  shows "pool_inv w b held"
proof -
  have "pool_inv w b held = pool_inv w b0 held"
    unfolding pool_inv_def assms(2) assms(3) assms(4) by (rule refl)
  then show ?thesis using assms(1) by simp
qed

lemma pool_inv_create:
  assumes "inj (uuid4_hex w)" and "pool_inv w b held" and "create_api_client w b = Some b'"
  shows "pool_inv w b' held"
proof -
  obtain b0 where b0: "b' = register_client w b0" "api_clients_queue b0 = api_clients_queue b"
    "api_clients_info b0 = api_clients_info b" "uuid_calls b0 = uuid_calls b"
    using create_loop_shape[OF assms(3)[unfolded create_api_client_def]] by blast
  have "pool_inv w b0 held" using assms(2) b0(2-4) by (auto intro: pool_inv_cong)
  then show ?thesis unfolding b0(1) by (rule pool_inv_register[OF assms(1)])
qed

lemma create_inserts_both:
  assumes "inj (uuid4_hex w)" and "pool_inv w b held" and "create_api_client w b = Some b'"
  shows "uuid4_hex w (uuid_calls b) \<notin> set (map fst (api_clients_info b)) \<and>
         map acd_id (api_clients_queue b') = map acd_id (api_clients_queue b) @ [uuid4_hex w (uuid_calls b)] \<and>
         map fst (api_clients_info b') = map fst (api_clients_info b) @ [uuid4_hex w (uuid_calls b)]"
proof -
  obtain b0 where b0: "b' = register_client w b0" "api_clients_queue b0 = api_clients_queue b"
    "api_clients_info b0 = api_clients_info b" "uuid_calls b0 = uuid_calls b"
    using create_loop_shape[OF assms(3)[unfolded create_api_client_def]] by blast
  have p: "pool_inv w b0 held" using assms(2) b0(2-4) by (auto intro: pool_inv_cong)
  show ?thesis
    using register_client_ids[OF assms(1) p] unfolding b0 by simp
qed

lemma retire_shape:
  assumes "retire b = Some (Inr b')"
  shows "\<exists>a. api_clients_queue b = a # api_clients_queue b' \<and>
             acd_id a \<in> set (map fst (api_clients_info b)) \<and>
             map fst (api_clients_info b') = filter (\<lambda>c. c \<noteq> acd_id a) (map fst (api_clients_info b)) \<and>
             uuid_calls b' = uuid_calls b"
proof -
  from assms obtain wi pool a queue info where
    p: "workers_pool b = wi # pool" and q: "api_clients_queue b = a # queue"
    and d: "dict_del (acd_id a) (api_clients_info b) = Inr info"
    and b': "b' = b\<lparr>workers_pool := pool, api_clients_queue := queue, api_clients_info := info,
                     logged := logged b @ [Kill_main_worker]\<rparr>"
    by (auto simp: retire_def bindE_def split: list.splits sum.splits)
  have k: "map fst info = filter (\<lambda>c. c \<noteq> acd_id a) (map fst (api_clients_info b))"
    by (rule dict_del_keys[OF d])
  have m: "acd_id a \<in> set (map fst (api_clients_info b))"
    using d by (auto simp: dict_del_def split: if_splits)
  show ?thesis
    using q k m by (intro exI[of _ a]) (simp add: b')
qed

lemma pool_inv_retire:
  assumes "pool_inv w b held" and "retire b = Some (Inr b')"
  shows "pool_inv w b' held"
proof -
  obtain a where q: "api_clients_queue b = a # api_clients_queue b'"
    and k: "map fst (api_clients_info b') = filter (\<lambda>c. c \<noteq> acd_id a) (map fst (api_clients_info b))"
    and u: "uuid_calls b' = uuid_calls b"
    using retire_shape[OF assms(2)] by blast
  define ids where "ids = map acd_id (api_clients_queue b' @ held)"
  define keys where "keys = map fst (api_clients_info b)"
  have inv: "insert (acd_id a) (set ids) = set keys" "acd_id a \<notin> set ids" "distinct ids"
    "distinct keys" "\<forall>c \<in> set ids. \<exists>i < uuid_calls b. c = uuid4_hex w i"
    using assms(1) unfolding pool_inv_def q ids_def keys_def by auto
  have s: "set (filter (\<lambda>c. c \<noteq> acd_id a) keys) = set ids"
    using inv(1,2) by auto
  show ?thesis
    unfolding pool_inv_def k u ids_def[symmetric] keys_def[symmetric]
    using s inv(3,4,5) by (simp add: distinct_filter)
qed

lemma pool_inv_scale:
  assumes "inj (uuid4_hex w)" and "pool_inv w b held" and "scale w cfg qsize b = Some (Inr b')"
  shows "pool_inv w b' held"
proof -
  show ?thesis
  proof (cases "free_count cfg b > 0 \<and>
         real qsize > threshold (resource_items_queue_size cfg) (workers_inc_threshold cfg)")
    case True
    then have "scale w cfg qsize b = map_option (\<lambda>b1. Inr (spawn_worker b1)) (create_api_client w b)"
      unfolding scale_def by simp
    with assms(3) obtain b1 where up: "create_api_client w b = Some b1" "b' = spawn_worker b1"
      by (cases "create_api_client w b") auto
    have "pool_inv w b1 held" by (rule pool_inv_create[OF assms(1,2) up(1)])
    then show ?thesis unfolding up(2) by (rule pool_inv_cong) (simp_all add: spawn_worker_def)
  next
    case False
    have c: "(free_count cfg b > 0 \<and>
         real qsize > threshold (resource_items_queue_size cfg) (workers_inc_threshold cfg)) = False"
      by (rule eq_False[THEN iffD2]) (rule False)
    have e: "scale w cfg qsize b =
        (if real qsize < threshold (resource_items_queue_size cfg) (workers_dec_threshold cfg)
         then (if int (length (workers_pool b)) > workers_min cfg then retire b else Some (Inr b))
         else Some (Inr b))"
      unfolding scale_def c if_False by (rule refl)
    show ?thesis
    proof (cases "real qsize < threshold (resource_items_queue_size cfg) (workers_dec_threshold cfg)
                  \<and> int (length (workers_pool b)) > workers_min cfg")
      case True
      then have "retire b = Some (Inr b')" using assms(3) unfolding e by simp
      then show ?thesis by (rule pool_inv_retire[OF assms(2)])
    next
      case False
      then have "b' = b" using assms(3) unfolding e by (auto split: if_splits)
      then show ?thesis using assms(2) by simp
    qed
  qed
qed

lemma log_fill_fields:
  "log_fill cfg q1 q2 b = Inr b' \<Longrightarrow>
     api_clients_queue b' = api_clients_queue b \<and> api_clients_info b' = api_clients_info b \<and>
     uuid_calls b' = uuid_calls b \<and> workers_pool b' = workers_pool b"
  by (auto simp: log_fill_def bindE_def split: sum.splits)

lemma pool_inv_acquire:
  assumes "pool_inv w b held" and "acquire b held = Some (b', held')"
  shows "pool_inv w b' held'"
proof -
  from assms(2) obtain c queue where q: "api_clients_queue b = c # queue"
    and b': "b' = b\<lparr>api_clients_queue := queue\<rparr>" and h: "held' = held @ [c]"
    by (auto simp: acquire_def split: list.splits)
  have s: "set (map acd_id (api_clients_queue b' @ held')) = set (map acd_id (api_clients_queue b @ held))"
    by (auto simp: b' h q)
  have d: "distinct (map acd_id (api_clients_queue b' @ held')) = distinct (map acd_id (api_clients_queue b @ held))"
    by (auto simp: b' h q)
  have f: "api_clients_info b' = api_clients_info b" "uuid_calls b' = uuid_calls b"
    by (simp_all add: b')
  show ?thesis
    using assms(1) unfolding pool_inv_def s d f .
qed

lemma map_remove1_distinct:
  "distinct (map g xs) \<Longrightarrow> x \<in> set xs \<Longrightarrow> map g (remove1 x xs) = remove1 (g x) (map g xs)"
  by (induction xs) (auto simp: image_iff)

lemma pool_inv_release:
  assumes "pool_inv w b held" and "c \<in> set held" and "release c interval count b held = (b', held')"
  shows "pool_inv w b' held'"
proof -
  define c' where "c' = c\<lparr>acd_request_interval := interval, acd_not_actual_count := count\<rparr>"
  have b': "b' = b\<lparr>api_clients_queue := api_clients_queue b @ [c']\<rparr>" and h: "held' = remove1 c held"
    using assms(3) by (simp_all add: release_def c'_def)
  have id: "acd_id c' = acd_id c" by (simp add: c'_def)
  define qids where "qids = map acd_id (api_clients_queue b)"
  define hids where "hids = map acd_id held"
  have dist: "distinct (qids @ hids)"
    using assms(1) unfolding pool_inv_def qids_def hids_def by simp
  then have dh: "distinct hids" by simp
  have m: "acd_id c \<in> set hids" using assms(2) by (simp add: hids_def)
  have r: "map acd_id held' = remove1 (acd_id c) hids"
    unfolding h hids_def using dh assms(2) by (intro map_remove1_distinct) (simp_all add: hids_def)
  have ids: "map acd_id (api_clients_queue b' @ held') = (qids @ [acd_id c]) @ remove1 (acd_id c) hids"
    by (simp add: b' r id qids_def)
  have s: "set ((qids @ [acd_id c]) @ remove1 (acd_id c) hids) = set (qids @ hids)"
    using m dh by auto
  have d: "distinct ((qids @ [acd_id c]) @ remove1 (acd_id c) hids)"
    using dist m by auto
  have f: "api_clients_info b' = api_clients_info b" "uuid_calls b' = uuid_calls b"
    by (simp_all add: b')
  have inv: "set (qids @ hids) = set (map fst (api_clients_info b))"
    "distinct (map fst (api_clients_info b))"
    "\<forall>x \<in> set (qids @ hids). \<exists>i < uuid_calls b. x = uuid4_hex w i"
    using assms(1) unfolding pool_inv_def qids_def hids_def by simp_all
  show ?thesis
    unfolding pool_inv_def ids s f using inv d by blast
qed

lemma reachable_pool_inv:
  assumes "inj (uuid4_hex w)" and "reachable w cfg b held"
  shows "pool_inv w b held"
  using assms(2)
proof (induction rule: reachable.induct)
  case start
  show ?case by (simp add: pool_inv_def new_bridge_def)
next
  case (created b held b')
  then show ?case using pool_inv_create[OF assms(1)] by blast
next
  case (spawning b held)
  then show ?case by (auto intro: pool_inv_cong simp: spawn_worker_def)
next
  case (controlled b held qsize main_qsize retry_qsize b')
  from controlled(2) obtain b1 where s: "scale w cfg qsize b = Some (Inr b1)"
    and l: "log_fill cfg main_qsize retry_qsize b1 = Inr b'"
    by (auto simp: queues_controller_step_def split: option.splits sum.splits)
  have "pool_inv w b1 held" by (rule pool_inv_scale[OF assms(1) controlled(3) s])
  then show ?case using log_fill_fields[OF l] by (auto intro: pool_inv_cong)
next
  case (watched b held now now_prune rep infos)
  have "map fst infos = map fst (api_clients_info b)"
    using perfomance_watcher_result(1)[OF watched(2)] by (simp add: comp_def case_prod_unfold)
  then show ?case using watched(3) by (auto intro: pool_inv_cong)
next
  case (acquired b held b' held')
  then show ?case using pool_inv_acquire by blast
next
  case (used b held c f)
  then show ?case by (auto intro: pool_inv_cong simp: update_health_keys)
next
  case (released b held c interval count b' held')
  then show ?case using pool_inv_release by blast
qed

text \<open>
  Claim C6, as amended. In every state that the bridge and its workers reach, the ids of
  the clients on the queue together with the ids of the clients held by workers are
  exactly the keys of the health map, none of them twice: every client on the queue has
  its entry, and every entry belongs to a client on the queue or to one that a worker
  has taken. Creation adds one new id to the queue and to the health map; the scale-down
  branch takes the client at the head of the queue and removes the entry of its id. The
  identifiers drawn are taken to be pairwise different.
\<close>

theorem pool_matches_health_map:
  assumes "inj (uuid4_hex w)" and "reachable w cfg b held"
  shows "set (map acd_id (api_clients_queue b)) \<union> set (map acd_id held)
           = set (map fst (api_clients_info b)) \<and>
         distinct (map acd_id (api_clients_queue b) @ map acd_id held) \<and>
         distinct (map fst (api_clients_info b)) \<and>
         (\<forall>b'. create_api_client w b = Some b' \<longrightarrow>
            uuid4_hex w (uuid_calls b) \<notin> set (map fst (api_clients_info b)) \<and>
            map acd_id (api_clients_queue b')
              = map acd_id (api_clients_queue b) @ [uuid4_hex w (uuid_calls b)] \<and>
            map fst (api_clients_info b')
              = map fst (api_clients_info b) @ [uuid4_hex w (uuid_calls b)]) \<and>
         (\<forall>b'. retire b = Some (Inr b') \<longrightarrow>
            (\<exists>a. api_clients_queue b = a # api_clients_queue b' \<and>
                 acd_id a \<in> set (map fst (api_clients_info b)) \<and>
                 map fst (api_clients_info b')
                   = filter (\<lambda>c. c \<noteq> acd_id a) (map fst (api_clients_info b))))"
proof -
  have p: "pool_inv w b held" by (rule reachable_pool_inv[OF assms])
  have "set (map acd_id (api_clients_queue b)) \<union> set (map acd_id held)
           = set (map fst (api_clients_info b))"
       "distinct (map acd_id (api_clients_queue b) @ map acd_id held)"
       "distinct (map fst (api_clients_info b))"
    using p unfolding pool_inv_def by simp_all
  moreover have "\<forall>b'. create_api_client w b = Some b' \<longrightarrow>
            uuid4_hex w (uuid_calls b) \<notin> set (map fst (api_clients_info b)) \<and>
            map acd_id (api_clients_queue b')
              = map acd_id (api_clients_queue b) @ [uuid4_hex w (uuid_calls b)] \<and>
            map fst (api_clients_info b')
              = map fst (api_clients_info b) @ [uuid4_hex w (uuid_calls b)]"
    using create_inserts_both[OF assms(1) p] by blast
  moreover have "\<forall>b'. retire b = Some (Inr b') \<longrightarrow>
            (\<exists>a. api_clients_queue b = a # api_clients_queue b' \<and>
                 acd_id a \<in> set (map fst (api_clients_info b)) \<and>
                 map fst (api_clients_info b')
                   = filter (\<lambda>c. c \<noteq> acd_id a) (map fst (api_clients_info b)))"
    using retire_shape by blast
  ultimately show ?thesis by blast
qed

lemma create_api_client_first_try:
  assumes "APIClient w (api_calls b) = Started"
  shows "create_api_client w b = Some (register_client w b)"
  using create_api_client_succeeds[of 0 w b] assms by simp

lemma inj_sample_world: "inj (uuid4_hex sample_world)"
proof (rule injI)
  fix x y assume "uuid4_hex sample_world x = uuid4_hex sample_world y"
  then have "length (replicate (Suc x) CHR ''a'') = length (replicate (Suc y) CHR ''a'')"
    by (simp add: sample_world_def)
  then show "x = y" by simp
qed

lemma reachable_sample: "reachable sample_world sample_settings sample_bridge sample_held"
proof -
  define b1 where "b1 = register_client sample_world new_bridge"
  define b3 where "b3 = register_client sample_world (spawn_worker b1)"
  have c1: "create_api_client sample_world new_bridge = Some b1"
    unfolding b1_def by (rule create_api_client_first_try) (simp add: sample_world_def)
  have c3: "create_api_client sample_world (spawn_worker b1) = Some b3"
    unfolding b3_def by (rule create_api_client_first_try) (simp add: sample_world_def)
  have a: "acquire b3 [] = Some (sample_bridge, sample_held)"
    by (simp add: acquire_def b3_def b1_def register_client_def spawn_worker_def new_bridge_def
        sample_world_def sample_bridge_def sample_held_def Let_def)
  have "reachable sample_world sample_settings b3 []"
    by (rule reachable.created[OF reachable.spawning[OF reachable.created[OF reachable.start c1]] c3])
  then show ?thesis using a by (rule reachable.acquired)
qed

text \<open>
  Two clients \<open>a\<close> and \<open>aa\<close>, the first held by a worker: both have their entry. A third
  creation adds \<open>aaa\<close> to the queue and to the health map, and a retirement takes \<open>aa\<close> off
  the queue and deletes its entry.
\<close>

theorem pool_matches_health_map_witness:
  "inj (uuid4_hex sample_world) \<and>
   reachable sample_world sample_settings sample_bridge sample_held \<and>
   map acd_id (api_clients_queue sample_bridge) = [''aa''] \<and>
   map acd_id sample_held = [''a''] \<and>
   map fst (api_clients_info sample_bridge) = [''a'', ''aa''] \<and>
   create_api_client sample_world sample_bridge = Some (register_client sample_world sample_bridge) \<and>
   map acd_id (api_clients_queue (register_client sample_world sample_bridge)) = [''aa'', ''aaa''] \<and>
   map fst (api_clients_info (register_client sample_world sample_bridge)) = [''a'', ''aa'', ''aaa''] \<and>
   retire sample_bridge =
     Some (Inr (sample_bridge\<lparr>workers_pool := [], api_clients_queue := [],
        api_clients_info :=
          [(''a'', \<lparr>drop_cookies = False, request_durations = [], request_interval = 0,
                   avg_duration = 0, grown = None\<rparr>)],
        logged := logged sample_bridge @ [Kill_main_worker]\<rparr>))"
proof -
  note t = pool_matches_health_map[OF inj_sample_world reachable_sample]
  have c: "create_api_client sample_world sample_bridge = Some (register_client sample_world sample_bridge)"
    by (rule create_api_client_first_try) (simp add: sample_world_def sample_bridge_def)
  have q: "map acd_id (api_clients_queue (register_client sample_world sample_bridge))
             = map acd_id (api_clients_queue sample_bridge) @ [uuid4_hex sample_world (uuid_calls sample_bridge)]"
    and k: "map fst (api_clients_info (register_client sample_world sample_bridge))
             = map fst (api_clients_info sample_bridge) @ [uuid4_hex sample_world (uuid_calls sample_bridge)]"
    using t c by blast+
  have v: "map acd_id (api_clients_queue sample_bridge) = [''aa'']"
    "map acd_id sample_held = [''a'']"
    "map fst (api_clients_info sample_bridge) = [''a'', ''aa'']"
    "uuid4_hex sample_world (uuid_calls sample_bridge) = ''aaa''"
    by (simp_all add: sample_bridge_def sample_held_def sample_world_def numeral_2_eq_2)
  have r: "retire sample_bridge =
     Some (Inr (sample_bridge\<lparr>workers_pool := [], api_clients_queue := [],
        api_clients_info :=
          [(''a'', \<lparr>drop_cookies = False, request_durations = [], request_interval = 0,
                   avg_duration = 0, grown = None\<rparr>)],
        logged := logged sample_bridge @ [Kill_main_worker]\<rparr>))"
    by (simp add: retire_def sample_bridge_def dict_del_def)
  show ?thesis
    using inj_sample_world reachable_sample c r unfolding q k v by simp
qed

text \<open>
  Claim C6 as stated fails in the direction from the health map to the pool: once a
  worker has acquired the only client, the queue is empty and the health map still has
  the entry of that client.
\<close>

theorem health_entry_without_pooled_client_counterexample:
  "reachable sample_world sample_settings
     ((register_client sample_world new_bridge)\<lparr>api_clients_queue := []\<rparr>)
     [\<lparr>acd_id = ''a'', acd_client = 0, acd_request_interval = 0, acd_not_actual_count = 0\<rparr>] \<and>
   map acd_id (api_clients_queue ((register_client sample_world new_bridge)\<lparr>api_clients_queue := []\<rparr>)) = [] \<and>
   map fst (api_clients_info ((register_client sample_world new_bridge)\<lparr>api_clients_queue := []\<rparr>)) = [''a'']"
proof -
  have c: "create_api_client sample_world new_bridge = Some (register_client sample_world new_bridge)"
    by (rule create_api_client_first_try) (simp add: sample_world_def)
  have a: "acquire (register_client sample_world new_bridge) [] =
      Some ((register_client sample_world new_bridge)\<lparr>api_clients_queue := []\<rparr>,
        [\<lparr>acd_id = ''a'', acd_client = 0, acd_request_interval = 0, acd_not_actual_count = 0\<rparr>])"
    by (simp add: acquire_def register_client_def new_bridge_def sample_world_def Let_def)
  have "reachable sample_world sample_settings
     ((register_client sample_world new_bridge)\<lparr>api_clients_queue := []\<rparr>)
     [\<lparr>acd_id = ''a'', acd_client = 0, acd_request_interval = 0, acd_not_actual_count = 0\<rparr>]"
    by (rule reachable.acquired[OF reachable.created[OF reachable.start c] a])
  then show ?thesis
    by (simp add: register_client_def new_bridge_def sample_world_def Let_def)
qed

section \<open>The queues controller\<close>

lemma fl_eq_0_iff [simp]: "fl x = 0 \<longleftrightarrow> x = 0"
  using fl_pos[of x] fl_neg[of x] by (cases "x = 0"; cases "0 < x") auto







text \<open>
  Claim C7, as amended. With \<^verbatim>\<open>workers_inc_threshold = workers_dec_threshold\<close>, an
  iteration in which the size of the main queue equals the bound that the source
  computes, \<^verbatim>\<open>(float(capacity) / 100) * threshold\<close> in double precision, takes neither
  branch: nothing is created, killed or retired. In general an iteration that completes
  leaves the bridge as it was, or creates one client and spawns one worker, or kills one
  worker and retires one client.
\<close>

theorem scale_one_decision:
  "(workers_inc_threshold cfg = workers_dec_threshold cfg \<and>
    real qsize = threshold (resource_items_queue_size cfg) (workers_inc_threshold cfg)
      \<longrightarrow> scale w cfg qsize b = Some (Inr b))
   \<and> (scale w cfg qsize b = Some (Inr b') \<longrightarrow>
        b' = b
      \<or> (\<exists>b1. create_api_client w b = Some b1 \<and> b' = spawn_worker b1 \<and>
             length (workers_pool b') = length (workers_pool b) + 1 \<and>
             length (api_clients_queue b') = length (api_clients_queue b) + 1)
      \<or> (retire b = Some (Inr b') \<and>
             length (workers_pool b') + 1 = length (workers_pool b) \<and>
             length (api_clients_queue b') + 1 = length (api_clients_queue b)))"
proof (intro conjI impI)
  assume "workers_inc_threshold cfg = workers_dec_threshold cfg \<and>
    real qsize = threshold (resource_items_queue_size cfg) (workers_inc_threshold cfg)"
  then show "scale w cfg qsize b = Some (Inr b)"
    by (simp add: scale_def)
next
  assume s: "scale w cfg qsize b = Some (Inr b')"
  show "b' = b
      \<or> (\<exists>b1. create_api_client w b = Some b1 \<and> b' = spawn_worker b1 \<and>
             length (workers_pool b') = length (workers_pool b) + 1 \<and>
             length (api_clients_queue b') = length (api_clients_queue b) + 1)
      \<or> (retire b = Some (Inr b') \<and>
             length (workers_pool b') + 1 = length (workers_pool b) \<and>
             length (api_clients_queue b') + 1 = length (api_clients_queue b))"
  proof (cases "free_count cfg b > 0 \<and>
         real qsize > threshold (resource_items_queue_size cfg) (workers_inc_threshold cfg)")
    case True
    then have "scale w cfg qsize b = map_option (\<lambda>b1. Inr (spawn_worker b1)) (create_api_client w b)"
      unfolding scale_def by simp
    with s obtain b1 where up: "create_api_client w b = Some b1" "b' = spawn_worker b1"
      by (cases "create_api_client w b") auto
    obtain b0 where b0: "b1 = register_client w b0" "api_clients_queue b0 = api_clients_queue b"
      "workers_pool b0 = workers_pool b"
      using create_loop_shape[OF up(1)[unfolded create_api_client_def]] by blast
    have "length (workers_pool b') = length (workers_pool b) + 1"
         "length (api_clients_queue b') = length (api_clients_queue b) + 1"
      by (simp_all add: up(2) b0 spawn_worker_def register_client_def Let_def)
    then show ?thesis using up by blast
  next
    case False
    have c: "(free_count cfg b > 0 \<and>
         real qsize > threshold (resource_items_queue_size cfg) (workers_inc_threshold cfg)) = False"
      by (rule eq_False[THEN iffD2]) (rule False)
    have e: "scale w cfg qsize b =
        (if real qsize < threshold (resource_items_queue_size cfg) (workers_dec_threshold cfg)
         then (if int (length (workers_pool b)) > workers_min cfg then retire b else Some (Inr b))
         else Some (Inr b))"
      unfolding scale_def c if_False by (rule refl)
    show ?thesis
    proof (cases "real qsize < threshold (resource_items_queue_size cfg) (workers_dec_threshold cfg)
                  \<and> int (length (workers_pool b)) > workers_min cfg")
      case True
      then have r: "retire b = Some (Inr b')" using s unfolding e by simp
      then have "length (workers_pool b') + 1 = length (workers_pool b) \<and>
             length (api_clients_queue b') + 1 = length (api_clients_queue b)"
        by (auto simp: retire_def bindE_def split: list.splits sum.splits)
      then show ?thesis using r by blast
    next
      case False
      then have "b' = b" using s unfolding e by (auto split: if_splits)
      then show ?thesis by blast
    qed
  qed
qed

text \<open>A capacity of 100, both thresholds 50 and 50 items queued: the bound is exactly 50.\<close>

theorem scale_one_decision_witness:
  "workers_inc_threshold \<lparr>workers_min = 1, workers_max = 3, resource_items_queue_size = 100,
      retry_resource_items_queue_size = 100, workers_inc_threshold = 50,
      workers_dec_threshold = 50, perfomance_window = 300, watch_interval = 10\<rparr> = workers_dec_threshold \<lparr>workers_min = 1, workers_max = 3, resource_items_queue_size = 100,
      retry_resource_items_queue_size = 100, workers_inc_threshold = 50,
      workers_dec_threshold = 50, perfomance_window = 300, watch_interval = 10\<rparr> \<and>
   real 50 = threshold (resource_items_queue_size \<lparr>workers_min = 1, workers_max = 3, resource_items_queue_size = 100,
      retry_resource_items_queue_size = 100, workers_inc_threshold = 50,
      workers_dec_threshold = 50, perfomance_window = 300, watch_interval = 10\<rparr>) (workers_inc_threshold \<lparr>workers_min = 1, workers_max = 3, resource_items_queue_size = 100,
      retry_resource_items_queue_size = 100, workers_inc_threshold = 50,
      workers_dec_threshold = 50, perfomance_window = 300, watch_interval = 10\<rparr>) \<and>
   scale \<lparr>APIClient = (\<lambda>n. Started), uuid4_hex = (\<lambda>n. ''c0'')\<rparr> \<lparr>workers_min = 1, workers_max = 3, resource_items_queue_size = 100,
      retry_resource_items_queue_size = 100, workers_inc_threshold = 50,
      workers_dec_threshold = 50, perfomance_window = 300, watch_interval = 10\<rparr> 50 new_bridge
     = Some (Inr new_bridge)"
proof -
  have t: "threshold 100 50 = 50" by (simp add: threshold_def fl_gradual_def)
  show ?thesis
    using scale_one_decision[of "\<lparr>workers_min = 1, workers_max = 3, resource_items_queue_size = 100,
      retry_resource_items_queue_size = 100, workers_inc_threshold = 50,
      workers_dec_threshold = 50, perfomance_window = 300, watch_interval = 10\<rparr>" 50
        "\<lparr>APIClient = (\<lambda>n. Started), uuid4_hex = (\<lambda>n. ''c0'')\<rparr>" new_bridge new_bridge]
    by (simp add: t)
qed

text \<open>
  Claim C7 as stated fails. With a capacity of 14, both thresholds 50 and 7 items queued
  the fill percentage \<open>100 * 7 / 14\<close> is exactly 50, but the bound computed in double
  precision is \<open>0.14 * 50 = 7.000000000000001\<close>: 7 is below it and the scale-down branch
  kills a worker and retires a client.
\<close>

theorem scale_at_equal_fill_counterexample:
  "workers_inc_threshold \<lparr>workers_min = 1, workers_max = 3, resource_items_queue_size = 14,
      retry_resource_items_queue_size = 100, workers_inc_threshold = 50,
      workers_dec_threshold = 50, perfomance_window = 300, watch_interval = 10\<rparr> = workers_dec_threshold \<lparr>workers_min = 1, workers_max = 3, resource_items_queue_size = 14,
      retry_resource_items_queue_size = 100, workers_inc_threshold = 50,
      workers_dec_threshold = 50, perfomance_window = 300, watch_interval = 10\<rparr> \<and>
   100 * real 7 / of_int (resource_items_queue_size \<lparr>workers_min = 1, workers_max = 3, resource_items_queue_size = 14,
      retry_resource_items_queue_size = 100, workers_inc_threshold = 50,
      workers_dec_threshold = 50, perfomance_window = 300, watch_interval = 10\<rparr>) = workers_inc_threshold \<lparr>workers_min = 1, workers_max = 3, resource_items_queue_size = 14,
      retry_resource_items_queue_size = 100, workers_inc_threshold = 50,
      workers_dec_threshold = 50, perfomance_window = 300, watch_interval = 10\<rparr> \<and>
   threshold (resource_items_queue_size \<lparr>workers_min = 1, workers_max = 3, resource_items_queue_size = 14,
      retry_resource_items_queue_size = 100, workers_inc_threshold = 50,
      workers_dec_threshold = 50, perfomance_window = 300, watch_interval = 10\<rparr>) (workers_inc_threshold \<lparr>workers_min = 1, workers_max = 3, resource_items_queue_size = 14,
      retry_resource_items_queue_size = 100, workers_inc_threshold = 50,
      workers_dec_threshold = 50, perfomance_window = 300, watch_interval = 10\<rparr>)
     = 7881299347898369 / 1125899906842624 \<and>
   scale \<lparr>APIClient = (\<lambda>n. Started), uuid4_hex = (\<lambda>n. ''c0'')\<rparr> \<lparr>workers_min = 1, workers_max = 3, resource_items_queue_size = 14,
      retry_resource_items_queue_size = 100, workers_inc_threshold = 50,
      workers_dec_threshold = 50, perfomance_window = 300, watch_interval = 10\<rparr> 7
     \<lparr>api_clients_queue =
        [\<lparr>acd_id = ''c0'', acd_client = 0, acd_request_interval = 0, acd_not_actual_count = 0\<rparr>,
         \<lparr>acd_id = ''c1'', acd_client = 1, acd_request_interval = 0, acd_not_actual_count = 0\<rparr>],
      api_clients_info =
        [(''c0'', \<lparr>drop_cookies = False, request_durations = [], request_interval = 0,
                  avg_duration = 0, grown = None\<rparr>),
         (''c1'', \<lparr>drop_cookies = False, request_durations = [], request_interval = 0,
                  avg_duration = 0, grown = None\<rparr>)],
      workers_pool = [0, 1], api_calls = 2, uuid_calls = 2, spawned = 2,
      logged = [], slept = []\<rparr>
   = Some (Inr
     \<lparr>api_clients_queue =
        [\<lparr>acd_id = ''c1'', acd_client = 1, acd_request_interval = 0, acd_not_actual_count = 0\<rparr>],
      api_clients_info =
        [(''c1'', \<lparr>drop_cookies = False, request_durations = [], request_interval = 0,
                  avg_duration = 0, grown = None\<rparr>)],
      workers_pool = [1], api_calls = 2, uuid_calls = 2, spawned = 2,
      logged = [Kill_main_worker], slept = []\<rparr>)"
proof -
  have t1: "fl (7 / 50) = 1261007895663739 / 9007199254740992"
    using fl_eval_frac[of "7 / 50" 55] by (simp add: rne_def)
  have t2: "fl (31525197391593475 / 4503599627370496) = 7881299347898369 / 1125899906842624"
    using fl_eval_frac[of "31525197391593475 / 4503599627370496" 50] by (simp add: rne_def)
  have t: "threshold 14 50 = 7881299347898369 / 1125899906842624"
    by (simp add: threshold_def fl_gradual_def t1 t2)
  show ?thesis
    by (simp add: t scale_def free_count_def retire_def dict_del_def)
qed

subsection \<open>The fill of the retry queue\<close>











lemma log_fill_zero_capacity:
  assumes "resource_items_queue_size cfg = 0 \<or> retry_resource_items_queue_size cfg = 0"
  shows "log_fill cfg main_qsize retry_qsize b = Inl ZeroDivisionError"
  using assms
  by (auto simp: log_fill_def filled_resource_items_queue_def
      filled_retry_resource_items_queue_def float_truediv_def bindE_def)



section \<open>Errors of the constructor\<close>

lemma bindE_eq_Inl_iff:
  "bindE m f = Inl e \<longleftrightarrow> m = Inl e \<or> (\<exists>x. m = Inr x \<and> f x = Inl e)"
  by (cases m) (simp_all add: bindE_def)

lemma raising_eq_Inl_iff: "raising r = Inl e \<longleftrightarrow> r = Some e"
  by (cases r) (simp_all add: raising_def)

lemma py_get_no_config_error: "py_get c k d \<noteq> Inl (DataBridgeConfigError m)"
  by (cases c) simp_all

lemma py_getitem_no_config_error: "py_getitem c k \<noteq> Inl (DataBridgeConfigError m)"
  by (cases c) (simp_all split: option.splits)

lemma getattr_no_config_error: "getattr d k \<noteq> Inl (DataBridgeConfigError m)"
  by (simp add: getattr_def split: option.splits)

lemma setattrs_no_config_error:
  "foreign ext \<Longrightarrow> setattrs ext kvs \<noteq> Inl (DataBridgeConfigError m)"
  by (induction kvs) (auto simp: bindE_eq_Inl_iff raising_eq_Inl_iff foreign_def)

lemma read_config_no_config_error:
  "foreign ext \<Longrightarrow> read_config ext D cm \<noteq> Inl (DataBridgeConfigError m)"
  unfolding read_config_def Let_def
  by (auto simp: bindE_eq_Inl_iff setattrs_no_config_error py_get_no_config_error
      py_getitem_no_config_error split: option.splits)

lemma make_pool_no_config_error:
  "foreign ext \<Longrightarrow> make_pool ext d k \<noteq> Inl (DataBridgeConfigError m)"
  by (auto simp: make_pool_def bindE_eq_Inl_iff raising_eq_Inl_iff getattr_no_config_error foreign_def)

lemma make_queue_no_config_error:
  "foreign ext \<Longrightarrow> make_queue ext d k \<noteq> Inl (DataBridgeConfigError m)"
  by (auto simp: make_queue_def bindE_eq_Inl_iff raising_eq_Inl_iff getattr_no_config_error foreign_def
      split: if_splits)

lemma make_pools_and_queues_no_config_error:
  "foreign ext \<Longrightarrow> make_pools_and_queues ext d \<noteq> Inl (DataBridgeConfigError m)"
  unfolding make_pools_and_queues_def
  by (simp add: bindE_eq_Inl_iff make_pool_no_config_error make_queue_no_config_error)

lemma check_up_wait_sleep_iff:
  "check_up_wait_sleep p = Inl (DataBridgeConfigError m) \<longleftrightarrow>
     (\<exists>u. py_get p ''up_wait_sleep'' PNone = Inr u \<and> u \<noteq> PNone \<and> lt_30 u)
      \<and> m = up_wait_sleep_message"
  unfolding check_up_wait_sleep_def
  by (auto simp: bindE_eq_Inl_iff py_get_no_config_error)

lemma check_api_host_iff:
  "foreign ext \<Longrightarrow> check_api_host ext h = Inl (DataBridgeConfigError m) \<longleftrightarrow>
     ((h = PStr [] \<or> h = PNone) \<and> m = missing_url_message) \<or>
     (h \<noteq> PStr [] \<and> h \<noteq> PNone \<and> urlparse ext h = Inr ([], []) \<and> m = invalid_url_message)"
  unfolding check_api_host_def
  by (auto simp: bindE_eq_Inl_iff foreign_def split: if_splits)

text \<open>
  Claim C3 (amended). When no library raises \<^verbatim>\<open>DataBridgeConfigError\<close>, the constructor
  raises it with message \<^verbatim>\<open>m\<close> exactly when the configuration has been read without an
  error and either \<^verbatim>\<open>retrievers_params\<close> is a dict whose \<^verbatim>\<open>up_wait_sleep\<close> is not
  \<^verbatim>\<open>None\<close> and below 30 (first message), or that check passes, the pools and the queues
  are built, and \<^verbatim>\<open>resources_api_server\<close> is the empty string, \<^verbatim>\<open>None\<close> or missing
  (message \<^verbatim>\<open>In config dictionary empty or missing 'resources_api_server'\<close>), or is another
  value that \<^verbatim>\<open>urlparse\<close> splits into an empty scheme and an empty netloc (message
  \<^verbatim>\<open>Invalid 'resources_api_server' url.\<close>).
\<close>

theorem init_config_error_iff:
  assumes "foreign ext"
  shows "init ext DEFAULTS config_main = Inl (DataBridgeConfigError m) \<longleftrightarrow>
    (\<exists>defaults self. read_config ext DEFAULTS config_main = Inr (defaults, self) \<and>
      ((\<exists>u. py_get (retrievers_params self) ''up_wait_sleep'' PNone = Inr u \<and> u \<noteq> PNone \<and> lt_30 u)
          \<and> m = up_wait_sleep_message
       \<or> check_up_wait_sleep (retrievers_params self) = Inr ()
          \<and> make_pools_and_queues ext defaults = Inr ()
          \<and> ((api_host self = PStr [] \<or> api_host self = PNone) \<and> m = missing_url_message
             \<or> api_host self \<noteq> PStr [] \<and> api_host self \<noteq> PNone
                \<and> urlparse ext (api_host self) = Inr ([], []) \<and> m = invalid_url_message)))"
  unfolding init_def
  by (auto simp: bindE_eq_Inl_iff read_config_no_config_error[OF assms]
      make_pools_and_queues_no_config_error[OF assms] check_up_wait_sleep_iff
      check_api_host_iff[OF assms])

lemma foreign_sample_externals: "foreign sample_externals"
  by (simp add: foreign_def sample_externals_def sample_urlparse_def split: pyval.splits)

lemmas init_eval =
  read_config_def Let_def sample_defaults_def sample_externals_def sample_urlparse_def
  raising_def getattr_def check_up_wait_sleep_def make_pools_and_queues_def make_pool_def
  make_queue_def check_api_host_def

text \<open>
  With \<^verbatim>\<open>up_wait_sleep = 29\<close>, with an empty address and with the address
  \<^verbatim>\<open>localhost\<close> the constructor raises the three errors.
\<close>

theorem init_config_error_iff_witness:
  "foreign sample_externals \<and>
   init sample_externals sample_defaults
     (Some [(''resources_api_server'', PStr ''http://localhost:20602''),
            (''retrievers_params'', PDict [(''up_wait_sleep'', PInt 29)])])
     = Inl (DataBridgeConfigError up_wait_sleep_message) \<and>
   init sample_externals sample_defaults (Some [(''resources_api_server'', PStr [])])
     = Inl (DataBridgeConfigError missing_url_message) \<and>
   init sample_externals sample_defaults (Some [(''resources_api_server'', PStr ''localhost'')])
     = Inl (DataBridgeConfigError invalid_url_message)"
proof -
  note iff = init_config_error_iff [OF foreign_sample_externals, of sample_defaults]
  have "init sample_externals sample_defaults
     (Some [(''resources_api_server'', PStr ''http://localhost:20602''),
            (''retrievers_params'', PDict [(''up_wait_sleep'', PInt 29)])])
     = Inl (DataBridgeConfigError up_wait_sleep_message)"
    unfolding iff by (simp add: init_eval)
  moreover have "init sample_externals sample_defaults (Some [(''resources_api_server'', PStr [])])
     = Inl (DataBridgeConfigError missing_url_message)"
    unfolding iff by (simp add: init_eval)
  moreover have "init sample_externals sample_defaults
     (Some [(''resources_api_server'', PStr ''localhost'')])
     = Inl (DataBridgeConfigError invalid_url_message)"
    unfolding iff by (simp add: init_eval)
  ultimately show ?thesis
    using foreign_sample_externals by simp
qed

text \<open>
  Other errors leave the constructor, and an address without a host is accepted: a
  configuration without the section \<^verbatim>\<open>main\<close> raises \<^verbatim>\<open>KeyError\<close>, and the address
  \<^verbatim>\<open>http:localhost\<close>, which has the scheme \<^verbatim>\<open>http\<close> and an empty netloc, passes the
  check.
\<close>

theorem init_other_errors_counterexample:
  "init sample_externals sample_defaults None = Inl (KeyError ''main'') \<and>
   init sample_externals sample_defaults (Some [(''resources_api_server'', PStr ''http:localhost'')])
     = Inr \<lparr>api_host = PStr ''http:localhost'', api_version = PStr ''0'',
            retrievers_params = PDict [(''up_wait_sleep'', PInt 30)],
            storage_type = PStr ''couchdb'', worker_type = PStr ''basic_couchdb'',
            filter_type = PStr ''basic_couchdb''\<rparr>"
  by (simp add: init_def init_eval)

end
